theory Spec2Isabelle
  imports Main "HOL-Library.Char_ord" "HOL-Library.List_Lexorder" "HOL-Library.Multiset"
begin

chapter \<open>Definitions\<close>

section \<open>Go string primitives used by the handlers\<close>

text \<open>
  Go strings are byte sequences; they are modelled as \<^typ>\<open>string\<close>. A slice
  \<open>s[:i]\<close> is \<open>take i s\<close> and \<open>s[i:]\<close> is \<open>drop i s\<close>. \<open>strings.Index\<close> returns
  \<open>-1\<close> when the separator does not occur; the model returns \<open>None\<close> there.
\<close>

definition strings_HasPrefix :: "string \<Rightarrow> string \<Rightarrow> bool" where
  "strings_HasPrefix s p = (take (length p) s = p)"

definition strings_TrimPrefix :: "string \<Rightarrow> string \<Rightarrow> string" where
  "strings_TrimPrefix s p = (if strings_HasPrefix s p then drop (length p) s else s)"

fun strings_Index :: "string \<Rightarrow> string \<Rightarrow> nat option" where
  "strings_Index [] sep = (if sep = [] then Some 0 else None)"
| "strings_Index (c # cs) sep =
     (if strings_HasPrefix (c # cs) sep then Some 0
      else map_option Suc (strings_Index cs sep))"

definition strings_Contains :: "string \<Rightarrow> string \<Rightarrow> bool" where
  "strings_Contains s sub = (strings_Index s sub \<noteq> None)"

text \<open>\<open>strings.Replace(s, old, new, 1)\<close>: only the first occurrence is replaced.\<close>

definition strings_Replace1 :: "string \<Rightarrow> string \<Rightarrow> string \<Rightarrow> string" where
  "strings_Replace1 s old new =
     (case strings_Index s old of
        None \<Rightarrow> s
      | Some i \<Rightarrow> take i s @ new @ drop (i + length old) s)"

text \<open>
  \<open>fmt\<close>'s verb \<open>%q\<close>: the argument between double quotes, a double quote and a
  backslash escaped with a backslash. (Go also escapes bytes that are not printable;
  none of the properties below depends on the text between the quotes.)
\<close>

fun fmt_q_body :: "string \<Rightarrow> string" where
  "fmt_q_body [] = []"
| "fmt_q_body (c # cs) =
     (if c = CHR 0x22 \<or> c = CHR 0x5C then CHR 0x5C # c # fmt_q_body cs
      else c # fmt_q_body cs)"

definition fmt_q :: "string \<Rightarrow> string" where
  "fmt_q s = CHR 0x22 # fmt_q_body s @ [CHR 0x22]"

section \<open>Status errors written by \<open>responsewriters.ErrorNegotiated\<close>\<close>

record Status =
  status_Code :: nat
  status_Message :: string

text \<open>The constructors of \<open>k8s.io/apimachinery/pkg/api/errors\<close> the handlers call.\<close>

definition NewBadRequest :: "string \<Rightarrow> Status" where
  "NewBadRequest reason = \<lparr>status_Code = 400, status_Message = reason\<rparr>"

definition NewInternalError :: "string \<Rightarrow> Status" where
  "NewInternalError err =
     \<lparr>status_Code = 500, status_Message = ''Internal error occurred: '' @ err\<rparr>"

text \<open>\<open>schema.GroupResource.String()\<close>: the resource alone in the core group.\<close>

definition GroupResource_String :: "string \<Rightarrow> string \<Rightarrow> string" where
  "GroupResource_String grp res = (if grp = [] then res else res @ ''.'' @ grp)"

definition NewMethodNotSupported :: "string \<Rightarrow> string \<Rightarrow> string \<Rightarrow> Status" where
  "NewMethodNotSupported grp res action =
     \<lparr>status_Code = 405,
      status_Message = action @ '' is not supported on resources of kind ''
        @ fmt_q (GroupResource_String grp res)\<rparr>"

section \<open>Requests and their context\<close>

record Cluster =
  cluster_Name :: string
  cluster_Wildcard :: bool
  cluster_PartialMetadataRequest :: bool

record RequestInfo =
  ri_IsResourceRequest :: bool
  ri_Verb :: string
  ri_APIGroup :: string
  ri_APIVersion :: string
  ri_Resource :: string

text \<open>
  The values the handlers keep in \<open>context.Context\<close>, one optional field per key.
\<close>

record Context =
  ctx_acceptHeader :: "string option"
  ctx_userAgent :: "string option"
  ctx_cluster :: "Cluster option"
  ctx_requestInfo :: "RequestInfo option"
  ctx_identity :: "string option"

text \<open>
  An \<open>http.Request\<close>: the fields of \<open>URL\<close> the handlers read and write, the request
  line's \<open>RequestURI\<close>, the headers under their canonical names and the context.
\<close>

record Request =
  URL_Path :: string
  URL_RawPath :: string
  RequestURI :: string
  Header :: "string \<rightharpoonup> string list"
  req_Context :: Context

text \<open>\<open>http.Header.Get\<close>: the first value of the key, the empty string without one.\<close>

definition Header_Get :: "(string \<rightharpoonup> string list) \<Rightarrow> string \<Rightarrow> string" where
  "Header_Get h k = (case h k of Some (v # _) \<Rightarrow> v | _ \<Rightarrow> [])"

text \<open>
  What a handler of the chain does with a request: \<open>Next r\<close> is the call
  \<open>apiHandler.ServeHTTP(w, r)\<close> of the wrapped handler, \<open>Respond st\<close> is
  \<open>responsewriters.ErrorNegotiated(st, ...)\<close> followed by \<open>return\<close>: the wrapped
  handler is not called.
\<close>

datatype outcome = Next Request | Respond Status

definition forwarded :: "outcome \<Rightarrow> bool" where
  "forwarded out = (case out of Next _ \<Rightarrow> True | Respond _ \<Rightarrow> False)"

definition responded_Code :: "outcome \<Rightarrow> nat option" where
  "responded_Code out = (case out of Next _ \<Rightarrow> None | Respond st \<Rightarrow> Some (status_Code st))"

definition responded_Message :: "outcome \<Rightarrow> string option" where
  "responded_Message out =
     (case out of Next _ \<Rightarrow> None | Respond st \<Rightarrow> Some (status_Message st))"

definition next_Request :: "outcome \<Rightarrow> Request option" where
  "next_Request out = (case out of Next r \<Rightarrow> Some r | Respond _ \<Rightarrow> None)"

text \<open>
  Requests for the examples: \<open>context.Background()\<close>, and a request with the given
  path, raw path and headers in that context (\<open>RequestURI\<close> is the raw path, or the
  path when the raw path is empty, as \<open>net/http\<close> sets them for a request line with no
  query).
\<close>

definition Background :: Context where
  "Background = \<lparr>ctx_acceptHeader = None, ctx_userAgent = None, ctx_cluster = None,
     ctx_requestInfo = None, ctx_identity = None\<rparr>"

definition NewRequest :: "string \<Rightarrow> string \<Rightarrow> (string \<times> string list) list \<Rightarrow> Request" where
  "NewRequest p raw hdrs =
     \<lparr>URL_Path = p, URL_RawPath = raw, RequestURI = (if raw = [] then p else raw),
      Header = map_of hdrs, req_Context = Background\<rparr>"

section \<open>\<open>WithClusterScope\<close>\<close>

text \<open>
  \<open>reClusterName\<close> is the regular expression
  \<^verbatim>\<open>^([a-z]([a-z0-9-]{0,61}[a-z0-9])?:)*[a-z]([a-z0-9-]{0,61}[a-z0-9])?$\<close>.
  No segment can hold a colon, so a string matches exactly when each of its
  colon-separated pieces matches \<^verbatim>\<open>[a-z]([a-z0-9-]{0,61}[a-z0-9])?\<close>.
\<close>

definition lower_chars :: "char list" where
  "lower_chars = ''abcdefghijklmnopqrstuvwxyz''"

definition digit_chars :: "char list" where
  "digit_chars = ''0123456789''"

definition name_char :: "char \<Rightarrow> bool" where
  "name_char x = (x \<in> set lower_chars \<or> x \<in> set digit_chars \<or> x = CHR ''-'')"

definition matchSegment :: "string \<Rightarrow> bool" where
  "matchSegment s =
     (case s of
        [] \<Rightarrow> False
      | c # r \<Rightarrow>
          c \<in> set lower_chars \<and>
          (r = [] \<or>
           (length (butlast r) \<le> 61 \<and>
            list_all name_char (butlast r) \<and>
            (last r \<in> set lower_chars \<or> last r \<in> set digit_chars))))"

text \<open>
  \<open>strings.Split\<close> at a one-byte separator: the pieces between the separators, one
  piece more than there are separators (so the result is never empty, and the last case
  of the inner distinction is never taken).
\<close>

fun splitOn :: "char \<Rightarrow> string \<Rightarrow> string list" where
  "splitOn d [] = [[]]"
| "splitOn d (c # cs) =
     (if c = d then [] # splitOn d cs
      else (case splitOn d cs of
              piece # pieces \<Rightarrow> (c # piece) # pieces
            | [] \<Rightarrow> [[c]]))"

definition reClusterName :: "string \<Rightarrow> bool" where
  "reClusterName s = list_all matchSegment (splitOn CHR '':'' s)"

text \<open>\<open>logicalcluster.ClusterHeader\<close> and \<open>logicalcluster.Wildcard\<close>.\<close>

definition ClusterHeader :: string where
  "ClusterHeader = ''X-Kubernetes-Cluster''"

definition Wildcard :: string where
  "Wildcard = ''*''"

text \<open>
  The loop that shortens \<open>URL.RawPath\<close>:
  \<^verbatim>\<open>for i := 0; i < 2 && len(req.URL.RawPath) > 1; i++\<close>. The first argument is the
  number of rounds left. \<open>Inl raw\<close> is the early return, with the raw path of that
  moment, when \<open>RawPath[1:]\<close> has no slash. The body slices at \<open>slash\<close>, the index
  found in \<open>RawPath[1:]\<close>.
\<close>

fun shortenRawPath :: "nat \<Rightarrow> string \<Rightarrow> string + string" where
  "shortenRawPath 0 raw = Inr raw"
| "shortenRawPath (Suc n) raw =
     (if length raw > 1 then
        (case strings_Index (drop 1 raw) ''/'' of
           None \<Rightarrow> Inl raw
         | Some slash \<Rightarrow> shortenRawPath n (drop slash raw))
      else Inr raw)"

text \<open>
  \<open>isPartialMetadataRequest\<close> (another file of the package) and
  \<open>genericcontrolplane.LocalAdminCluster\<close> are parameters.
\<close>

definition resolveCluster ::
  "(Context \<Rightarrow> bool) \<Rightarrow> string \<Rightarrow> string \<Rightarrow> Request \<Rightarrow> outcome" where
  "resolveCluster isPartialMetadataRequest LocalAdminCluster clusterName req =
     (let pm = isPartialMetadataRequest (req_Context req);
          fwd = (\<lambda>cl. Next (req\<lparr>req_Context := (req_Context req)\<lparr>ctx_cluster := Some cl\<rparr>\<rparr>))
      in if clusterName = Wildcard then
           fwd \<lparr>cluster_Name = Wildcard, cluster_Wildcard = True,
                cluster_PartialMetadataRequest = pm\<rparr>
         else if clusterName = [] then
           fwd \<lparr>cluster_Name = LocalAdminCluster, cluster_Wildcard = False,
                cluster_PartialMetadataRequest = pm\<rparr>
         else if \<not> reClusterName clusterName then
           Respond (NewBadRequest
             (''invalid cluster: '' @ fmt_q clusterName @ '' does not match the regex''))
         else
           fwd \<lparr>cluster_Name = clusterName, cluster_Wildcard = False,
                cluster_PartialMetadataRequest = pm\<rparr>)"

definition WithClusterScope :: "(Context \<Rightarrow> bool) \<Rightarrow> string \<Rightarrow> Request \<Rightarrow> outcome" where
  "WithClusterScope isPartialMetadataRequest LocalAdminCluster req =
     (if strings_HasPrefix (URL_Path req) ''/clusters/'' then
        (let path = strings_TrimPrefix (URL_Path req) ''/clusters/'' in
         case strings_Index path ''/'' of
           None \<Rightarrow>
             Respond (NewBadRequest
               (''unable to parse cluster: no `/` found in path '' @ path))
         | Some i \<Rightarrow>
             (case shortenRawPath 2 (URL_RawPath req) of
                Inl raw \<Rightarrow>
                  Respond (NewInternalError
                    (''unable to parse cluster when shortening raw path, have clusterName=''
                       @ fmt_q (take i path) @ '', rawPath='' @ fmt_q raw))
              | Inr raw \<Rightarrow>
                  resolveCluster isPartialMetadataRequest LocalAdminCluster (take i path)
                    (req\<lparr>URL_Path := drop i path, URL_RawPath := raw\<rparr>)))
      else
        resolveCluster isPartialMetadataRequest LocalAdminCluster
          (Header_Get (Header req) ClusterHeader) req)"

text \<open>For the examples: no request asks for partial metadata.\<close>

definition noPartialMetadata :: "Context \<Rightarrow> bool" where
  "noPartialMetadata c = False"

section \<open>\<open>WithWildcardListWatchGuard\<close>\<close>

text \<open>
  \<open>request.ClusterFrom\<close> and \<open>request.RequestInfoFrom\<close> read the context;
  \<open>sets.NewString("list", "watch").Has\<close> is membership in the two verbs.
\<close>

definition WithWildcardListWatchGuard :: "Request \<Rightarrow> outcome" where
  "WithWildcardListWatchGuard req =
     (case ctx_cluster (req_Context req) of
        None \<Rightarrow> Next req
      | Some cluster \<Rightarrow>
          if cluster_Wildcard cluster then
            (case ctx_requestInfo (req_Context req) of
               None \<Rightarrow> Respond (NewInternalError ''missing requestInfo'')
             | Some requestInfo \<Rightarrow>
                 if ri_IsResourceRequest requestInfo \<and>
                    ri_Verb requestInfo \<notin> set [''list'', ''watch'']
                 then
                   (let statusErr = NewMethodNotSupported (ri_APIGroup requestInfo)
                          (ri_Resource requestInfo) (ri_Verb requestInfo)
                    in Respond (statusErr\<lparr>status_Message :=
                         status_Message statusErr @ '' in the `*` logical cluster''\<rparr>))
                 else Next req)
          else Next req)"

section \<open>\<open>WithWildcardIdentity\<close>\<close>

text \<open>
  \<open>processResourceIdentity\<close> returns the request to hand on, or an error (\<open>Inl\<close>, with
  its text). \<open>requestInfo\<close> is the pointer kept in the context, so the assignment to
  \<open>requestInfo.Resource\<close> shows in the context of the request returned;
  \<open>WithIdentity\<close> stores the identity under its context key.
\<close>

definition processResourceIdentity :: "Request \<Rightarrow> RequestInfo \<Rightarrow> string + Request" where
  "processResourceIdentity req requestInfo =
     (if \<not> ri_IsResourceRequest requestInfo then Inr req
      else
        (case strings_Index (ri_Resource requestInfo) '':'' of
           None \<Rightarrow> Inr req
         | Some i \<Rightarrow>
             (let resource = take i (ri_Resource requestInfo);
                  identity = drop (i + 1) (ri_Resource requestInfo)
              in if identity = [] then
                   Inl (''invalid resource '' @ fmt_q resource @ '': missing identity'')
                 else
                   Inr (req\<lparr>
                     URL_Path := strings_Replace1 (URL_Path req) (ri_Resource requestInfo) resource,
                     URL_RawPath :=
                       strings_Replace1 (URL_RawPath req) (ri_Resource requestInfo) resource,
                     req_Context := (req_Context req)\<lparr>
                       ctx_identity := Some identity,
                       ctx_requestInfo := Some (requestInfo\<lparr>ri_Resource := resource\<rparr>)\<rparr>\<rparr>))))"

definition WithWildcardIdentity :: "Request \<Rightarrow> outcome" where
  "WithWildcardIdentity req =
     (case ctx_cluster (req_Context req) of
        None \<Rightarrow> Next req
      | Some cluster \<Rightarrow>
          if \<not> cluster_Wildcard cluster then Next req
          else
            (case ctx_requestInfo (req_Context req) of
               None \<Rightarrow> Respond (NewInternalError ''missing requestInfo'')
             | Some requestInfo \<Rightarrow>
                 (case processResourceIdentity req requestInfo of
                    Inl err \<Rightarrow> Respond (NewInternalError err)
                  | Inr updatedReq \<Rightarrow> Next updatedReq)))"

text \<open>
  For the examples: the cluster attachment of a wildcard request, two request infos and
  a request in the wildcard cluster.
\<close>

definition wildcardCluster :: Cluster where
  "wildcardCluster = \<lparr>cluster_Name = Wildcard, cluster_Wildcard = True,
     cluster_PartialMetadataRequest = False\<rparr>"

definition getPods :: RequestInfo where
  "getPods = \<lparr>ri_IsResourceRequest = True, ri_Verb = ''get'', ri_APIGroup = [],
     ri_APIVersion = ''v1'', ri_Resource = ''pods''\<rparr>"

definition listWidgets :: "string \<Rightarrow> RequestInfo" where
  "listWidgets res = \<lparr>ri_IsResourceRequest = True, ri_Verb = ''list'', ri_APIGroup = ''foo'',
     ri_APIVersion = ''v1'', ri_Resource = res\<rparr>"

definition wildcardRequest :: "string \<Rightarrow> string \<Rightarrow> RequestInfo \<Rightarrow> Request" where
  "wildcardRequest p raw ri =
     (NewRequest p raw [])\<lparr>req_Context := Background\<lparr>
        ctx_cluster := Some wildcardCluster,
        ctx_requestInfo := Some ri\<rparr>\<rparr>"

section \<open>Discovery of the core group\<close>

definition passthroughHeader :: string where
  "passthroughHeader = ''X-Kcp-Api-V1-Discovery-Passthrough''"

text \<open>\<open>http.Header.Add\<close>: the value is appended to the values of the key.\<close>

definition Header_Add :: "(string \<rightharpoonup> string list) \<Rightarrow> string \<Rightarrow> string \<Rightarrow> (string \<rightharpoonup> string list)" where
  "Header_Add h k v = h(k \<mapsto> (case h k of None \<Rightarrow> [v] | Some vs \<Rightarrow> vs @ [v]))"

text \<open>\<open>metav1.APIResource\<close> and \<open>metav1.APIResourceList\<close>.\<close>

record APIResource =
  ar_Name :: string
  ar_SingularName :: string
  ar_Namespaced :: bool
  ar_Kind :: string
  ar_Verbs :: "string list"

record APIResourceList =
  arl_GroupVersion :: string
  arl_APIResources :: "APIResource list"

text \<open>
  The response writer that keeps the response in memory, with its methods
  \<open>WriteHeader\<close> and \<open>Write\<close>. A handler run on it is the list of the calls it makes
  (\<open>Header().Set\<close>, \<open>WriteHeader\<close>, \<open>Write\<close>), in order.
\<close>

record inMemoryResponseWriter =
  writeHeaderCalled :: bool
  header :: "string \<rightharpoonup> string list"
  respCode :: int
  data :: string

definition newInMemoryResponseWriter :: inMemoryResponseWriter where
  "newInMemoryResponseWriter =
     \<lparr>writeHeaderCalled = False, header = Map.empty, respCode = 0, data = []\<rparr>"

definition WriteHeader :: "int \<Rightarrow> inMemoryResponseWriter \<Rightarrow> inMemoryResponseWriter" where
  "WriteHeader code r = r\<lparr>writeHeaderCalled := True, respCode := code\<rparr>"

definition Write :: "string \<Rightarrow> inMemoryResponseWriter \<Rightarrow> inMemoryResponseWriter" where
  "Write inp r =
     (let r' = (if \<not> writeHeaderCalled r then WriteHeader 200 r else r)
      in r'\<lparr>data := data r' @ inp\<rparr>)"

datatype writer_call = CallHeaderSet string "string list" | CallWriteHeader int | CallWrite string

fun runHandler :: "writer_call list \<Rightarrow> inMemoryResponseWriter \<Rightarrow> inMemoryResponseWriter" where
  "runHandler [] r = r"
| "runHandler (CallHeaderSet k vs # cs) r = runHandler cs (r\<lparr>header := (header r)(k \<mapsto> vs)\<rparr>)"
| "runHandler (CallWriteHeader code # cs) r = runHandler cs (WriteHeader code r)"
| "runHandler (CallWrite inp # cs) r = runHandler cs (Write inp r)"

text \<open>
  The result of \<open>aggregator.DiscoveryCodecs.UniversalDeserializer().Decode\<close> followed by
  the type assertion to \<open>*metav1.APIResourceList\<close>: an error, an object of another type,
  or the list.
\<close>

datatype decoded = DecodeError string | UnexpectedType string | Decoded APIResourceList

text \<open>
  What \<open>serveCoreV1Discovery\<close> writes to the client: a status error, the relayed code and
  body of the nested response, or the version handler's answer for the given resources.
\<close>

datatype discovery_response =
    ErrorResponse Status
  | RawResponse int string
  | VersionHandler "APIResource list"

text \<open>
  The lister's result, \<open>apiextensionsapiserver.APIResourcesForGroupVersion\<close>, the core
  handler and the decoder are parameters. \<open>sort.SliceStable\<close> with the comparison of the
  names is \<^const>\<open>sort_key\<close> on the names, in the byte order of Go strings.
\<close>

definition serveCoreV1Discovery ::
  "(string + 'crd list) \<Rightarrow> (string \<Rightarrow> string \<Rightarrow> 'crd list \<Rightarrow> APIResource list) \<Rightarrow>
   (Request \<Rightarrow> writer_call list) \<Rightarrow> (string \<Rightarrow> decoded) \<Rightarrow> Request \<Rightarrow> discovery_response" where
  "serveCoreV1Discovery crdLister_List APIResourcesForGroupVersion coreHandler Decode req =
     (case crdLister_List of
        Inl err \<Rightarrow>
          ErrorResponse (NewInternalError
            (''unable to serve /api/v1 discovery: error listing CustomResourceDefinitions: '' @ err))
      | Inr crds \<Rightarrow>
          (let crdDiscovery = APIResourcesForGroupVersion [] ''v1'' crds;
               cr = req\<lparr>Header := Header_Add (Header req) passthroughHeader ''1''\<rparr>;
               writer = runHandler (coreHandler cr) newInMemoryResponseWriter
           in if respCode writer \<noteq> 200 then RawResponse (respCode writer) (data writer)
              else
                (case Decode (data writer) of
                   DecodeError err \<Rightarrow>
                     ErrorResponse (NewInternalError
                       (''unable to serve /api/v1 discovery: error decoding /api/v1 response from generic control plane: '' @ err))
                 | UnexpectedType ty \<Rightarrow>
                     ErrorResponse (NewInternalError
                       (''unable to serve /api/v1 discovery: error decoding /api/v1 response from generic control plane: unexpected data type '' @ ty))
                 | Decoded v1ResourceList \<Rightarrow>
                     VersionHandler
                       (sort_key ar_Name (arl_APIResources v1ResourceList @ crdDiscovery)))))"

text \<open>
  The filter: \<open>ProcessFilter\<close> is \<open>chain.ProcessFilter\<close>, \<open>CrdHandler\<close> the call of the CRD
  handler. Without a request info in the context \<open>RequestInfoFrom\<close> returns a nil pointer,
  and the arguments of the error response read \<open>requestInfo.APIGroup\<close>.
  \<open>crdLister_Get name\<close> holds when \<open>crdLister.Get\<close> returns no error.
\<close>

datatype filter_result =
    ProcessFilter
  | CrdHandler
  | CoreV1Discovery discovery_response
  | NilDereference

definition mergeCRDsIntoCoreGroup ::
  "(string + 'crd list) \<Rightarrow> (string \<Rightarrow> bool) \<Rightarrow>
   (string \<Rightarrow> string \<Rightarrow> 'crd list \<Rightarrow> APIResource list) \<Rightarrow>
   (Request \<Rightarrow> writer_call list) \<Rightarrow> (string \<Rightarrow> decoded) \<Rightarrow> Request \<Rightarrow> filter_result" where
  "mergeCRDsIntoCoreGroup crdLister_List crdLister_Get APIResourcesForGroupVersion coreHandler
       Decode req =
     (case ctx_requestInfo (req_Context req) of
        None \<Rightarrow> NilDereference
      | Some requestInfo \<Rightarrow>
          if ri_APIGroup requestInfo \<noteq> [] then ProcessFilter
          else if \<not> ri_IsResourceRequest requestInfo \<and>
                  (URL_Path req = ''/api/v1'' \<or> URL_Path req = ''/api/v1/'') then
            (if Header req passthroughHeader \<noteq> None then ProcessFilter
             else CoreV1Discovery
               (serveCoreV1Discovery crdLister_List APIResourcesForGroupVersion coreHandler
                  Decode req))
          else if ri_IsResourceRequest requestInfo \<and>
                  crdLister_Get (ri_Resource requestInfo @ ''.core'') then CrdHandler
          else ProcessFilter)"

text \<open>
  For the examples: a discovery request, resources, a native handler that writes the
  given body with no call of \<open>WriteHeader\<close>, a decoder that knows two bodies, and CRDs
  given by their resources.
\<close>

definition discoveryInfo :: RequestInfo where
  "discoveryInfo = \<lparr>ri_IsResourceRequest = False, ri_Verb = ''get'', ri_APIGroup = [],
     ri_APIVersion = ''v1'', ri_Resource = []\<rparr>"

definition discoveryRequest :: Request where
  "discoveryRequest =
     (NewRequest ''/api/v1'' [] [])\<lparr>req_Context := Background\<lparr>
        ctx_requestInfo := Some discoveryInfo\<rparr>\<rparr>"

definition resourceNamed :: "string \<Rightarrow> string \<Rightarrow> APIResource" where
  "resourceNamed n k = \<lparr>ar_Name = n, ar_SingularName = [], ar_Namespaced = True, ar_Kind = k,
     ar_Verbs = [''get'', ''list'', ''watch'']\<rparr>"

definition nativeHandler :: "string \<Rightarrow> Request \<Rightarrow> writer_call list" where
  "nativeHandler body r = [CallWrite body]"

definition exampleDecode :: "string \<Rightarrow> decoded" where
  "exampleDecode body =
     (if body = ''APIResourceList[pods]'' then
        Decoded \<lparr>arl_GroupVersion = ''v1'', arl_APIResources = [resourceNamed ''pods'' ''Pod'']\<rparr>
      else if body = ''APIResourceList[configmaps]'' then
        Decoded \<lparr>arl_GroupVersion = ''v1'',
                 arl_APIResources = [resourceNamed ''configmaps'' ''ConfigMap'']\<rparr>
      else DecodeError ''not an APIResourceList'')"

definition crdResources :: "string \<Rightarrow> string \<Rightarrow> APIResource list \<Rightarrow> APIResource list" where
  "crdResources grp version crds = (if grp = [] \<and> version = ''v1'' then crds else [])"

definition noCRD :: "string \<Rightarrow> bool" where
  "noCRD crdName = False"

section \<open>\<open>WithInClusterServiceAccountRequestRewrite\<close>\<close>

text \<open>
  \<open>strings.Join\<close>, and \<open>path.Clean\<close> and \<open>path.Join\<close> of the Go library. \<open>Clean\<close> works
  on the elements between slashes: empty elements and \<open>.\<close> are dropped, \<open>..\<close> removes the
  element before it (at the root it is dropped, at the start of a path that is not
  rooted it is kept), every other element is kept. A rooted result is \<open>/\<close> followed by
  the elements joined by slashes; an empty result that is not rooted is \<open>.\<close>.
\<close>

fun strings_Join :: "string list \<Rightarrow> string \<Rightarrow> string" where
  "strings_Join [] sep = []"
| "strings_Join [e] sep = e"
| "strings_Join (e # es) sep = e @ sep @ strings_Join es sep"

text \<open>
  The elements of a path, cleaned; \<open>out\<close> holds the elements kept so far.
\<close>

fun cleanElems :: "bool \<Rightarrow> string list \<Rightarrow> string list \<Rightarrow> string list" where
  "cleanElems rooted out [] = out"
| "cleanElems rooted out (e # es) =
     (if e = [] \<or> e = ''.'' then cleanElems rooted out es
      else if e = ''..'' then
        (if out \<noteq> [] \<and> last out \<noteq> ''..'' then cleanElems rooted (butlast out) es
         else if \<not> rooted then cleanElems rooted (out @ [''..'']) es
         else cleanElems rooted out es)
      else cleanElems rooted (out @ [e]) es)"

definition path_Clean :: "string \<Rightarrow> string" where
  "path_Clean p =
     (if p = [] then ''.''
      else
        (let rooted = (hd p = CHR ''/'');
             out = cleanElems rooted [] (splitOn CHR ''/'' p)
         in if rooted then CHR ''/'' # strings_Join out ''/''
            else if out = [] then ''.''
            else strings_Join out ''/''))"

text \<open>
  \<open>path.Join\<close>: the empty string when every element is empty; otherwise the elements from
  the first that is not empty on, joined by slashes, and cleaned.
\<close>

fun joinBuf :: "string \<Rightarrow> string list \<Rightarrow> string" where
  "joinBuf buf [] = buf"
| "joinBuf buf (e # es) =
     joinBuf (if buf \<noteq> [] \<or> e \<noteq> []
              then (if buf \<noteq> [] then buf @ ''/'' else buf) @ e
              else buf) es"

definition path_Join :: "string list \<Rightarrow> string" where
  "path_Join elem = (if concat elem = [] then [] else path_Clean (joinBuf [] elem))"

text \<open>
  The claims of a token, as \<open>encoding/json\<close> decodes them into
  \<open>map[string]interface{}\<close>, and \<open>unstructured.NestedString\<close>: the value is looked up
  along the fields; a field that is missing (or a nil value on the way) is "not found",
  a value on the way that is no map and a final value that is no string are errors.
\<close>

datatype json =
    JNull
  | JBool bool
  | JNumber int
  | JString string
  | JArray "json list"
  | JObject "(string \<times> json) list"

datatype nested_field = FieldNotFound | FieldError | FieldValue json

fun NestedFieldNoCopy :: "json \<Rightarrow> string list \<Rightarrow> nested_field" where
  "NestedFieldNoCopy val [] = FieldValue val"
| "NestedFieldNoCopy val (field # rest) =
     (case val of
        JNull \<Rightarrow> FieldNotFound
      | JObject m \<Rightarrow>
          (case map_of m field of
             None \<Rightarrow> FieldNotFound
           | Some v \<Rightarrow> NestedFieldNoCopy v rest)
      | _ \<Rightarrow> FieldError)"

datatype nested_string = NotFound | AccessorError | Found string

definition NestedString :: "(string \<times> json) list \<Rightarrow> string list \<Rightarrow> nested_string" where
  "NestedString obj path =
     (case NestedFieldNoCopy (JObject obj) path of
        FieldNotFound \<Rightarrow> NotFound
      | FieldError \<Rightarrow> AccessorError
      | FieldValue (JString s) \<Rightarrow> Found s
      | FieldValue _ \<Rightarrow> AccessorError)"

text \<open>The two assignments at the end of the handler, and the call of the wrapped handler.\<close>

definition rewriteToCluster :: "string \<Rightarrow> Request \<Rightarrow> outcome" where
  "rewriteToCluster clusterName req =
     Next (req\<lparr>URL_Path := path_Join [''/clusters'', clusterName, URL_Path req],
               RequestURI := path_Join [''/clusters'', clusterName, RequestURI req]\<rparr>)"

text \<open>
  \<open>jwt2.ParseSigned\<close> and \<open>UnsafeClaimsWithoutVerification\<close> are parameters: \<open>None\<close> is
  an error.
\<close>

definition WithInClusterServiceAccountRequestRewrite ::
  "(string \<Rightarrow> 'jws option) \<Rightarrow> ('jws \<Rightarrow> (string \<times> json) list option) \<Rightarrow> Request \<Rightarrow> outcome" where
  "WithInClusterServiceAccountRequestRewrite ParseSigned UnsafeClaimsWithoutVerification req =
     (let clusterHeader = Header_Get (Header req) ClusterHeader;
          shardedHeader = Header_Get (Header req) ''X-Kubernetes-Sharded-Request''
      in if clusterHeader \<noteq> [] \<or> shardedHeader \<noteq> [] then Next req
         else if strings_HasPrefix (RequestURI req) ''/clusters/'' then Next req
         else
           (let prefix = ''Bearer '';
                token = Header_Get (Header req) ''Authorization''
            in if \<not> strings_HasPrefix token prefix then Next req
               else
                 (case ParseSigned (drop (length prefix) token) of
                    None \<Rightarrow> Next req
                  | Some decoded \<Rightarrow>
                      (case UnsafeClaimsWithoutVerification decoded of
                         None \<Rightarrow> Next req
                       | Some claims \<Rightarrow>
                           (case NestedString claims [''kubernetes.io'', ''clusterName''] of
                              Found clusterName \<Rightarrow> rewriteToCluster clusterName req
                            | _ \<Rightarrow>
                                (case NestedString claims
                                        [''kubernetes.io/serviceaccount/clusterName''] of
                                   Found clusterName \<Rightarrow> rewriteToCluster clusterName req
                                 | _ \<Rightarrow> Next req))))))"

text \<open>
  An element of a clean path: not empty, not \<open>.\<close>, not \<open>..\<close>, and without a slash.
\<close>

definition pathElement :: "string \<Rightarrow> bool" where
  "pathElement e = (e \<noteq> [] \<and> e \<noteq> ''.'' \<and> e \<noteq> ''..'' \<and> CHR ''/'' \<notin> set e)"

text \<open>
  For the examples: a parser that knows one token, with the bound claim
  \<open>kubernetes.io.clusterName = root:org\<close>, and one token with the legacy claim.
\<close>

definition exampleParseSigned :: "string \<Rightarrow> string option" where
  "exampleParseSigned token =
     (if token = ''header.bound.signature'' then Some ''bound''
      else if token = ''header.legacy.signature'' then Some ''legacy''
      else None)"

definition exampleClaims :: "string \<Rightarrow> (string \<times> json) list option" where
  "exampleClaims payload =
     (if payload = ''bound'' then
        Some [(''iss'', JString ''kubernetes/serviceaccount''),
              (''kubernetes.io'', JObject [(''clusterName'', JString ''root:org'')])]
      else if payload = ''legacy'' then
        Some [(''kubernetes.io/serviceaccount/clusterName'', JString ''root:org'')]
      else None)"

text \<open>A request with the given path and \<open>Authorization\<close> header, and further headers.\<close>

definition bearerRequest :: "string \<Rightarrow> string \<Rightarrow> (string \<times> string list) list \<Rightarrow> Request" where
  "bearerRequest p auth hdrs = NewRequest p [] ((''Authorization'', [auth]) # hdrs)"

section \<open>Admission of \<open>ClusterWorkspace\<close>\<close>

text \<open>
  The admission plugin itself is not among the sources at hand: its tests are
  (\<open>admission_test.go\<close>), and the schema of the object
  (\<open>tenancy.kcp.dev_clusterworkspaces.yaml\<close>). The object and the attributes of a
  request follow the schema and the tests; \<open>status.phase\<close> is optional in the schema
  and absent in some tests, hence an option of the three phases.
\<close>

datatype phase = Scheduling | Initializing | Ready

record ClusterWorkspaceTypeReference =
  typeref_Name :: string
  typeref_Path :: string

record ClusterWorkspace =
  cw_Name :: string
  cw_Annotations :: "string \<rightharpoonup> string"
  cw_Type :: ClusterWorkspaceTypeReference
  cw_Phase :: "phase option"
  cw_Initializers :: "string list"
  cw_LocationCurrent :: string
  cw_BaseURL :: string

text \<open>\<open>user.Info\<close>; the map \<open>Extra\<close> is the list of its entries, one per key.\<close>

record UserInfo =
  user_Name :: string
  user_UID :: string
  user_Groups :: "string list"
  user_Extra :: "(string \<times> string list) list"

datatype operation = Create | Update | Delete | Connect

record Attributes =
  attr_Object :: ClusterWorkspace
  attr_OldObject :: "ClusterWorkspace option"
  attr_Resource :: string
  attr_Operation :: operation
  attr_UserInfo :: UserInfo

text \<open>
  JSON texts made of strings, arrays and objects, written without white space. In a
  string the double quote and the backslash are escaped with a backslash, and a control
  character is written \<^verbatim>\<open>\u00XX\<close>.
\<close>

datatype jval = JStr string | JArr "jval list" | JObj "(string \<times> jval) list"

definition hexdigit :: "nat \<Rightarrow> char" where
  "hexdigit n = ''0123456789abcdef'' ! n"

definition json_escape_char :: "char \<Rightarrow> string" where
  "json_escape_char c =
     (if c = CHR 0x22 then [CHR 0x5C, CHR 0x22]
      else if c = CHR 0x5C then [CHR 0x5C, CHR 0x5C]
      else if (of_char c :: nat) < 32 then
        [CHR 0x5C, CHR ''u'', CHR ''0'', CHR ''0'',
         hexdigit (of_char c div 16), hexdigit (of_char c mod 16)]
      else [c])"

definition json_string :: "string \<Rightarrow> string" where
  "json_string s = CHR 0x22 # concat (map json_escape_char s) @ [CHR 0x22]"

fun render :: "jval \<Rightarrow> string" where
  "render (JStr s) = json_string s"
| "render (JArr vs) = ''['' @ strings_Join (map render vs) '','' @ '']''"
| "render (JObj fs) =
     ''{'' @ strings_Join (map (\<lambda>(k, v). json_string k @ '':'' @ render v) fs) '','' @ ''}''"

text \<open>
  Modelled from the spec: the JSON serialization of the caller identity that the plugin
  (not among the sources) writes into the owner annotation: the keys \<open>username\<close>,
  \<open>uid\<close>, \<open>groups\<close>, \<open>extra\<close> in this order, the keys of \<open>extra\<close> sorted. A field that is
  empty is left out: the tests accept the annotation \<^verbatim>\<open>{}\<close> for the empty identity.
\<close>

definition userInfoValue :: "UserInfo \<Rightarrow> jval" where
  "userInfoValue u =
     JObj ((if user_Name u = [] then [] else [(''username'', JStr (user_Name u))]) @
           (if user_UID u = [] then [] else [(''uid'', JStr (user_UID u))]) @
           (if user_Groups u = [] then [] else [(''groups'', JArr (map JStr (user_Groups u)))]) @
           (if user_Extra u = [] then []
            else [(''extra'',
                   JObj (map (\<lambda>(k, vs). (k, JArr (map JStr vs)))
                          (sort_key fst (user_Extra u))))]))"

definition ownerAnnotationValue :: "UserInfo \<Rightarrow> string" where
  "ownerAnnotationValue u = render (userInfoValue u)"

definition ownerAnnotationKey :: string where
  "ownerAnnotationKey = ''tenancy.kcp.dev/owner''"

text \<open>
  The field errors of the rules, and their texts as the tests expect them (the text
  for a missing location in phase \<open>Ready\<close> is in no test; it is written after the one for
  the base URL).
\<close>

datatype field_error =
    OwnerAnnotation string
  | TypeImmutable
  | LocationUnset
  | BaseURLUnset
  | PhaseTransition phase phase
  | InitializersNotEmpty
  | BaseURLNotSet
  | LocationNotSet

fun phaseName :: "phase \<Rightarrow> string" where
  "phaseName Scheduling = ''Scheduling''"
| "phaseName Initializing = ''Initializing''"
| "phaseName Ready = ''Ready''"

fun phaseOrdinal :: "phase \<Rightarrow> nat" where
  "phaseOrdinal Scheduling = 1"
| "phaseOrdinal Initializing = 2"
| "phaseOrdinal Ready = 3"

fun errorText :: "field_error \<Rightarrow> string" where
  "errorText (OwnerAnnotation expected) =
     ''expected user annotation tenancy.kcp.dev/owner='' @ expected"
| "errorText TypeImmutable = ''field is immutable''"
| "errorText LocationUnset = ''status.location.current cannot be unset''"
| "errorText BaseURLUnset = ''status.baseURL cannot be unset''"
| "errorText (PhaseTransition old new) =
     ''cannot transition from '' @ fmt_q (phaseName old) @ '' to '' @ fmt_q (phaseName new)"
| "errorText InitializersNotEmpty = ''spec.initializers must be empty for phase Ready''"
| "errorText BaseURLNotSet = ''status.baseURL must be set for phase Ready''"
| "errorText LocationNotSet = ''status.location.current must be set for phase Ready''"

text \<open>
  Modelled from the spec: \<open>Validate\<close> of the plugin (not among the sources), the rules 1
  to 7 of the spec in their order; each failure is one field error, and the request is
  rejected when the list is not empty. Objects of another resource are ignored. Rule 1
  holds on create; rules 2 to 5 compare with the old object on update; rule 6 (and with
  it rule 7) holds on create and update.
\<close>

definition validateCreate :: "Attributes \<Rightarrow> field_error list" where
  "validateCreate a =
     (if attr_Operation a = Create \<and>
         cw_Annotations (attr_Object a) ownerAnnotationKey
           \<noteq> Some (ownerAnnotationValue (attr_UserInfo a))
      then [OwnerAnnotation (ownerAnnotationValue (attr_UserInfo a))] else [])"

definition validateUpdate :: "ClusterWorkspace \<Rightarrow> ClusterWorkspace \<Rightarrow> field_error list" where
  "validateUpdate old cw =
     (if cw_Type old \<noteq> cw_Type cw then [TypeImmutable] else []) @
     (if cw_LocationCurrent old \<noteq> [] \<and> cw_LocationCurrent cw = [] then [LocationUnset] else []) @
     (if cw_BaseURL old \<noteq> [] \<and> cw_BaseURL cw = [] then [BaseURLUnset] else []) @
     (case (cw_Phase old, cw_Phase cw) of
        (Some po, Some pn) \<Rightarrow>
          if phaseOrdinal po > phaseOrdinal pn then [PhaseTransition po pn] else []
      | _ \<Rightarrow> [])"

definition validateReady :: "ClusterWorkspace \<Rightarrow> field_error list" where
  "validateReady cw =
     (if cw_Phase cw = Some Ready then
        (if cw_Initializers cw \<noteq> [] then [InitializersNotEmpty] else []) @
        (if cw_BaseURL cw = [] then [BaseURLNotSet] else []) @
        (if cw_LocationCurrent cw = [] then [LocationNotSet] else [])
      else [])"

definition Validate :: "Attributes \<Rightarrow> field_error list" where
  "Validate a =
     (if attr_Resource a \<noteq> ''clusterworkspaces'' then []
      else
        validateCreate a @
        (case (attr_Operation a, attr_OldObject a) of
           (Update, Some old) \<Rightarrow> validateUpdate old (attr_Object a)
         | _ \<Rightarrow> []) @
        (if attr_Operation a = Create \<or> attr_Operation a = Update
         then validateReady (attr_Object a) else []))"

text \<open>The request is rejected when a rule fails.\<close>

definition rejected :: "Attributes \<Rightarrow> bool" where
  "rejected a = (Validate a \<noteq> [])"

text \<open>
  Modelled from the spec: \<open>Admit\<close> of the plugin (not among the sources): on create the
  owner annotation is set to the serialization of the caller; on update nothing is
  done.
\<close>

definition Admit :: "Attributes \<Rightarrow> Attributes" where
  "Admit a =
     (if attr_Operation a = Create then
        a\<lparr>attr_Object := (attr_Object a)\<lparr>cw_Annotations :=
             (cw_Annotations (attr_Object a))
               (ownerAnnotationKey \<mapsto> ownerAnnotationValue (attr_UserInfo a))\<rparr>\<rparr>
      else a)"

text \<open>The objects and identities of the tests.\<close>

definition testWorkspace ::
  "(string \<times> string) list \<Rightarrow> string \<Rightarrow> phase option \<Rightarrow> string list \<Rightarrow> string \<Rightarrow> string
     \<Rightarrow> ClusterWorkspace" where
  "testWorkspace annotations ty ph inits loc url =
     \<lparr>cw_Name = ''test'', cw_Annotations = map_of annotations,
      cw_Type = \<lparr>typeref_Name = ty, typeref_Path = ''root:org''\<rparr>,
      cw_Phase = ph, cw_Initializers = inits, cw_LocationCurrent = loc, cw_BaseURL = url\<rparr>"

definition DefaultInfo :: UserInfo where
  "DefaultInfo = \<lparr>user_Name = [], user_UID = [], user_Groups = [], user_Extra = []\<rparr>"

definition someone :: UserInfo where
  "someone = \<lparr>user_Name = ''someone'', user_UID = ''id'', user_Groups = [''a'', ''b''],
     user_Extra = [(''one'', [''1'', ''01''])]\<rparr>"

definition createAttrWithUser :: "ClusterWorkspace \<Rightarrow> UserInfo \<Rightarrow> Attributes" where
  "createAttrWithUser ws info =
     \<lparr>attr_Object = ws, attr_OldObject = None, attr_Resource = ''clusterworkspaces'',
      attr_Operation = Create, attr_UserInfo = info\<rparr>"

definition createAttr :: "ClusterWorkspace \<Rightarrow> Attributes" where
  "createAttr ws = createAttrWithUser ws DefaultInfo"

definition updateAttr :: "ClusterWorkspace \<Rightarrow> ClusterWorkspace \<Rightarrow> Attributes" where
  "updateAttr ws old =
     \<lparr>attr_Object = ws, attr_OldObject = Some old, attr_Resource = ''clusterworkspaces'',
      attr_Operation = Update, attr_UserInfo = DefaultInfo\<rparr>"

text \<open>The owner annotation and the base URL of the objects of \<open>TestValidate\<close>.\<close>

definition ownerEmpty :: "(string \<times> string) list" where
  "ownerEmpty = [(''tenancy.kcp.dev/owner'', ''{}'')]"

definition bigcorp :: string where
  "bigcorp = ''https://kcp.bigcorp.com/clusters/org:test''"

subsection \<open>Decoding the owner annotation\<close>

text \<open>
  Modelled from the spec: the JSON decoding of the owner annotation (the decoder is
  \<open>encoding/json\<close>, and its caller is not among the sources). The decoder reads the
  texts of strings, arrays and objects written without white space; in a string it
  reads the escapes \<^verbatim>\<open>\"\<close>, \<^verbatim>\<open>\\\<close>, \<^verbatim>\<open>\/\<close> and \<^verbatim>\<open>\uXXXX\<close> for a code below 128, and
  refuses a control character that is not escaped.
\<close>

definition unhex :: "char \<Rightarrow> nat option" where
  "unhex c =
     (let k = (of_char c :: nat)
      in if 48 \<le> k \<and> k \<le> 57 then Some (k - 48)
         else if 97 \<le> k \<and> k \<le> 102 then Some (k - 87)
         else if 65 \<le> k \<and> k \<le> 70 then Some (k - 55)
         else None)"

definition unhex4 :: "char \<Rightarrow> char \<Rightarrow> char \<Rightarrow> char \<Rightarrow> nat option" where
  "unhex4 a b c d =
     (case (unhex a, unhex b, unhex c, unhex d) of
        (Some w, Some x, Some y, Some z) \<Rightarrow> Some (((w * 16 + x) * 16 + y) * 16 + z)
      | _ \<Rightarrow> None)"

text \<open>The text of a string after its opening quote: the string, and what follows the
  closing quote.\<close>

fun parse_chars :: "string \<Rightarrow> (string \<times> string) option" where
  "parse_chars [] = None"
| "parse_chars (c # cs) =
     (if c = CHR 0x22 then Some ([], cs)
      else if c = CHR 0x5C then
        (case cs of
           [] \<Rightarrow> None
         | e # cs' \<Rightarrow>
             if e = CHR 0x22 \<or> e = CHR 0x5C \<or> e = CHR ''/'' then
               map_option (\<lambda>(s, r). (e # s, r)) (parse_chars cs')
             else if e = CHR ''u'' then
               (case cs' of
                  h1 # h2 # h3 # h4 # cs'' \<Rightarrow>
                    (case unhex4 h1 h2 h3 h4 of
                       None \<Rightarrow> None
                     | Some n \<Rightarrow>
                         if n < 128 then
                           map_option (\<lambda>(s, r). (char_of n # s, r)) (parse_chars cs'')
                         else None)
                | _ \<Rightarrow> None)
             else None)
      else if (of_char c :: nat) < 32 then None
      else map_option (\<lambda>(s, r). (c # s, r)) (parse_chars cs))"

text \<open>
  A value, the elements of an array after its opening bracket, and the members of an
  object after its opening brace, each with what follows. The first argument bounds the
  number of calls; the text's length is enough (see \<open>decode\<close>).
\<close>

fun parse_value :: "nat \<Rightarrow> string \<Rightarrow> (jval \<times> string) option"
  and parse_elems :: "nat \<Rightarrow> string \<Rightarrow> (jval list \<times> string) option"
  and parse_members :: "nat \<Rightarrow> string \<Rightarrow> ((string \<times> jval) list \<times> string) option"
where
  "parse_value 0 s = None"
| "parse_value (Suc n) s =
     (case s of
        [] \<Rightarrow> None
      | c # cs \<Rightarrow>
          if c = CHR 0x22 then map_option (\<lambda>(x, r). (JStr x, r)) (parse_chars cs)
          else if c = CHR ''['' then
            (case cs of
               [] \<Rightarrow> None
             | d # ds \<Rightarrow>
                 if d = CHR '']'' then Some (JArr [], ds)
                 else map_option (\<lambda>(vs, r). (JArr vs, r)) (parse_elems n cs))
          else if c = CHR ''{'' then
            (case cs of
               [] \<Rightarrow> None
             | d # ds \<Rightarrow>
                 if d = CHR ''}'' then Some (JObj [], ds)
                 else map_option (\<lambda>(fs, r). (JObj fs, r)) (parse_members n cs))
          else None)"
| "parse_elems 0 s = None"
| "parse_elems (Suc n) s =
     (case parse_value n s of
        None \<Rightarrow> None
      | Some (v, r) \<Rightarrow>
          (case r of
             [] \<Rightarrow> None
           | c # cs \<Rightarrow>
               if c = CHR '','' then map_option (\<lambda>(vs, r'). (v # vs, r')) (parse_elems n cs)
               else if c = CHR '']'' then Some ([v], cs)
               else None))"
| "parse_members 0 s = None"
| "parse_members (Suc n) s =
     (case s of
        [] \<Rightarrow> None
      | q # cs \<Rightarrow>
          if q \<noteq> CHR 0x22 then None
          else
            (case parse_chars cs of
               None \<Rightarrow> None
             | Some (k, r) \<Rightarrow>
                 (case r of
                    [] \<Rightarrow> None
                  | c # cs' \<Rightarrow>
                      if c \<noteq> CHR '':'' then None
                      else
                        (case parse_value n cs' of
                           None \<Rightarrow> None
                         | Some (v, r') \<Rightarrow>
                             (case r' of
                                [] \<Rightarrow> None
                              | d # ds \<Rightarrow>
                                  if d = CHR '','' then
                                    map_option (\<lambda>(fs, r''). ((k, v) # fs, r''))
                                      (parse_members n ds)
                                  else if d = CHR ''}'' then Some ([(k, v)], ds)
                                  else None)))))"

text \<open>A whole text is one value with nothing after it.\<close>

definition decode :: "string \<Rightarrow> jval option" where
  "decode s = (case parse_value (length s) s of Some (v, []) \<Rightarrow> Some v | _ \<Rightarrow> None)"

text \<open>
  The identity in a decoded object, as \<open>encoding/json\<close> fills the struct: a key that is
  absent leaves the field empty, the last member of a key counts, and a value of the
  wrong kind is an error.
\<close>

fun stringsOf :: "jval list \<Rightarrow> string list option" where
  "stringsOf [] = Some []"
| "stringsOf (JStr s # vs) = map_option ((#) s) (stringsOf vs)"
| "stringsOf (_ # vs) = None"

fun extraOf :: "(string \<times> jval) list \<Rightarrow> (string \<times> string list) list option" where
  "extraOf [] = Some []"
| "extraOf ((k, JArr vs) # fs) =
     (case stringsOf vs of
        None \<Rightarrow> None
      | Some ss \<Rightarrow> map_option ((#) (k, ss)) (extraOf fs))"
| "extraOf (_ # fs) = None"

definition stringField :: "(string \<times> jval) list \<Rightarrow> string \<Rightarrow> string option" where
  "stringField fs k =
     (case map_of (rev fs) k of
        None \<Rightarrow> Some []
      | Some (JStr s) \<Rightarrow> Some s
      | Some _ \<Rightarrow> None)"

definition stringsField :: "(string \<times> jval) list \<Rightarrow> string \<Rightarrow> string list option" where
  "stringsField fs k =
     (case map_of (rev fs) k of
        None \<Rightarrow> Some []
      | Some (JArr vs) \<Rightarrow> stringsOf vs
      | Some _ \<Rightarrow> None)"

definition extraField ::
  "(string \<times> jval) list \<Rightarrow> string \<Rightarrow> (string \<times> string list) list option" where
  "extraField fs k =
     (case map_of (rev fs) k of
        None \<Rightarrow> Some []
      | Some (JObj es) \<Rightarrow> map_option rev (extraOf es)
      | Some _ \<Rightarrow> None)"

definition userInfoOfValue :: "jval \<Rightarrow> UserInfo option" where
  "userInfoOfValue v =
     (case v of
        JObj fs \<Rightarrow>
          (case (stringField fs ''username'', stringField fs ''uid'',
                 stringsField fs ''groups'', extraField fs ''extra'') of
             (Some n, Some u, Some g, Some e) \<Rightarrow>
               Some \<lparr>user_Name = n, user_UID = u, user_Groups = g, user_Extra = e\<rparr>
           | _ \<Rightarrow> None)
      | _ \<Rightarrow> None)"

definition decodeUserInfo :: "string \<Rightarrow> UserInfo option" where
  "decodeUserInfo s = (case decode s of None \<Rightarrow> None | Some v \<Rightarrow> userInfoOfValue v)"

text \<open>
  Two identities are the same caller when name, UID and groups agree and \<open>Extra\<close> is the
  same map.
\<close>

definition sameIdentity :: "UserInfo \<Rightarrow> UserInfo \<Rightarrow> bool" where
  "sameIdentity u u' =
     (user_Name u' = user_Name u \<and> user_UID u' = user_UID u \<and>
      user_Groups u' = user_Groups u \<and> map_of (user_Extra u') = map_of (user_Extra u))"

section \<open>The readiness loop of \<open>startFrontProxy\<close>\<close>

text \<open>
  What one round of the loop finds when it looks: whether \<open>ctx.Done()\<close> is closed, the
  exit code waiting in \<open>terminatedCh\<close> if there is one, the case \<open>select\<close> takes when both
  are ready (Go chooses among the ready cases), whether the kubeconfig loads, whether
  the client is built, and the answer of the probe: an error of the request (the REST
  client also reports a status outside 2xx as an error), or a status code.
\<close>

datatype probe = ProbeError | ProbeStatus int

record round =
  ctxDone :: bool
  terminatedCh :: "int option"
  selectsDone :: bool
  clientConfig :: bool
  newClusterForConfig :: bool
  readyz :: probe

text \<open>
  The goroutine around \<open>cmd.Wait()\<close>: an exit code is sent for a clean exit (0) and for
  an \<open>*exec.ExitError\<close>; nothing is sent for another error.
\<close>

datatype wait_result = WaitNil | WaitExitError int | WaitOtherError

fun terminatedSend :: "wait_result \<Rightarrow> int option" where
  "terminatedSend WaitNil = Some 0"
| "terminatedSend (WaitExitError code) = Some code"
| "terminatedSend WaitOtherError = None"

text \<open>
  The value returned: \<open>nil\<close> once the proxy is ready, or one of the two errors,
  \<open>context canceled\<close> and \<open>kcp-front-proxy terminated with exit code rc\<close>.
\<close>

datatype returned = ReturnNil | ContextCanceled | TerminatedWithExitCode int

text \<open>What the loop does to the world, in order.\<close>

datatype effect =
    Sleep nat
  | LoadKubeconfig string string
  | NewClient
  | Get string

text \<open>
  The \<open>select\<close> with its \<open>default\<close>: \<open>None\<close> when neither channel is ready.
\<close>

definition selectReturn :: "round \<Rightarrow> returned option" where
  "selectReturn r =
     (case terminatedCh r of
        None \<Rightarrow> if ctxDone r then Some ContextCanceled else None
      | Some rc \<Rightarrow>
          if ctxDone r \<and> selectsDone r then Some ContextCanceled
          else Some (TerminatedWithExitCode rc))"

text \<open>
  One round of the loop: its effects, and the value returned if the round ends the
  loop (\<open>None\<close> for \<open>continue\<close> and for the end of the body).
\<close>

definition pollOnce :: "round \<Rightarrow> effect list \<times> returned option" where
  "pollOnce r =
     (case selectReturn r of
        Some e \<Rightarrow> ([Sleep 1], Some e)
      | None \<Rightarrow>
          if \<not> clientConfig r then
            ([Sleep 1, LoadKubeconfig ''.kcp/admin.kubeconfig'' ''system:admin''], None)
          else if \<not> newClusterForConfig r then
            ([Sleep 1, LoadKubeconfig ''.kcp/admin.kubeconfig'' ''system:admin'', NewClient], None)
          else
            ([Sleep 1, LoadKubeconfig ''.kcp/admin.kubeconfig'' ''system:admin'', NewClient,
              Get ''/readyz''],
             (case readyz r of
                ProbeError \<Rightarrow> None
              | ProbeStatus rc \<Rightarrow> if rc = 200 then Some ReturnNil else None)))"

text \<open>
  The loop over the rounds the world offers; \<open>None\<close> when the rounds are used up and the
  loop is still polling.
\<close>

fun waitForReadiness :: "round list \<Rightarrow> effect list \<times> returned option" where
  "waitForReadiness [] = ([], None)"
| "waitForReadiness (r # rs) =
     (case pollOnce r of
        (es, Some v) \<Rightarrow> (es, Some v)
      | (es, None) \<Rightarrow>
          (case waitForReadiness rs of (es', v) \<Rightarrow> (es @ es', v)))"

text \<open>For the examples: a quiet round with the given probe, and a round with signals.\<close>

definition probing :: "probe \<Rightarrow> round" where
  "probing p = \<lparr>ctxDone = False, terminatedCh = None, selectsDone = False,
     clientConfig = True, newClusterForConfig = True, readyz = p\<rparr>"


chapter \<open>Properties\<close>

section \<open>Strings\<close>

lemma strings_Index_None_iff:
  "strings_Index s [c] = None \<longleftrightarrow> c \<notin> set s"
  by (induction s) (auto simp: strings_HasPrefix_def)


lemma strings_Index_prefix: "strings_HasPrefix s p \<Longrightarrow> strings_Index s p = Some 0"
  by (cases s) (auto simp: strings_HasPrefix_def)

lemma strings_Index_append_self: "strings_Index (a @ b @ c) b \<noteq> None"
proof (induction a)
  case Nil
  have "strings_HasPrefix (b @ c) b" by (simp add: strings_HasPrefix_def)
  then show ?case by (simp add: strings_Index_prefix)
next
  case (Cons x a)
  then show ?case by auto
qed

lemma strings_Contains_suffix: "strings_Contains (a @ b) b"
  using strings_Index_append_self [of a b "[]"] by (simp add: strings_Contains_def)

lemma strings_Index_Some:
  "strings_Index s old = Some i \<Longrightarrow>
     i \<le> length s \<and> strings_HasPrefix (drop i s) old \<and>
     (\<forall>j < i. \<not> strings_HasPrefix (drop j s) old)"
proof (induction s arbitrary: i)
  case Nil
  then show ?case by (auto simp: strings_HasPrefix_def split: if_splits)
next
  case (Cons c cs)
  show ?case
  proof (cases "strings_HasPrefix (c # cs) old")
    case True
    with Cons.prems show ?thesis by simp
  next
    case False
    with Cons.prems obtain k where k: "strings_Index cs old = Some k" "i = Suc k"
      by auto
    from Cons.IH [OF k(1)] False k(2) show ?thesis
      by (auto simp: less_Suc_eq_0_disj)
  qed
qed

lemma strings_Replace1_occurrence:
  assumes "strings_Index s old = Some i"
  shows "s = take i s @ old @ drop (i + length old) s"
    and "strings_Replace1 s old new = take i s @ new @ drop (i + length old) s"
proof -
  from strings_Index_Some [OF assms] have "take (length old) (drop i s) = old"
    by (simp add: strings_HasPrefix_def)
  then have "drop i s = old @ drop (length old) (drop i s)"
    by (metis append_take_drop_id)
  then have "take i s @ drop i s = take i s @ old @ drop (i + length old) s"
    by (simp add: add.commute)
  then show "s = take i s @ old @ drop (i + length old) s" by simp
  show "strings_Replace1 s old new = take i s @ new @ drop (i + length old) s"
    using assms by (simp add: strings_Replace1_def)
qed

lemma strings_Replace1_absent:
  "strings_Index s old = None \<Longrightarrow> strings_Replace1 s old new = s"
  by (simp add: strings_Replace1_def)

section \<open>Cluster names\<close>












section \<open>\<open>WithClusterScope\<close>\<close>










text \<open>
  C10. A path that starts with \<open>/clusters/\<close> and has no further slash (such as
  \<open>/clusters/root\<close>) is answered with a BadRequest status, code 400, and the wrapped
  handler is not called.
\<close>

theorem WithClusterScope_no_slash_BadRequest:
  assumes "strings_HasPrefix (URL_Path req) ''/clusters/''"
    and "CHR ''/'' \<notin> set (drop (length ''/clusters/'') (URL_Path req))"
  shows "responded_Code (WithClusterScope pm la req) = Some 400 \<and>
         \<not> forwarded (WithClusterScope pm la req)"
  using assms
  by (simp add: WithClusterScope_def strings_TrimPrefix_def strings_Index_None_iff [THEN iffD2]
      responded_Code_def forwarded_def NewBadRequest_def)

theorem WithClusterScope_no_slash_BadRequest_witness:
  "strings_HasPrefix (URL_Path (NewRequest ''/clusters/root'' [] [])) ''/clusters/'' \<and>
   CHR ''/'' \<notin> set (drop (length ''/clusters/'') (URL_Path (NewRequest ''/clusters/root'' [] []))) \<and>
   responded_Code (WithClusterScope noPartialMetadata ''system:admin''
      (NewRequest ''/clusters/root'' [] [])) = Some 400 \<and>
   \<not> forwarded (WithClusterScope noPartialMetadata ''system:admin''
      (NewRequest ''/clusters/root'' [] []))"
  using WithClusterScope_no_slash_BadRequest
    [of "NewRequest ''/clusters/root'' [] []" noPartialMetadata "''system:admin''"]
  by (simp add: NewRequest_def strings_HasPrefix_def)




lemma WithClusterScope_wildcard_flag:
  assumes "la \<noteq> Wildcard" and "WithClusterScope pm la req = Next req'"
  shows "\<exists>cl. ctx_cluster (req_Context req') = Some cl \<and>
           (cluster_Wildcard cl \<longleftrightarrow> cluster_Name cl = Wildcard)"
proof -
  have r: "resolveCluster pm la c r = Next r' \<Longrightarrow>
      \<exists>cl. ctx_cluster (req_Context r') = Some cl \<and>
           (cluster_Wildcard cl \<longleftrightarrow> cluster_Name cl = Wildcard)" for c r r'
    using assms(1) by (auto simp: resolveCluster_def Let_def split: if_splits)
  from assms(2) show ?thesis
    by (auto simp: WithClusterScope_def Let_def split: if_splits option.splits sum.splits dest: r)
qed

section \<open>\<open>WithWildcardListWatchGuard\<close>\<close>

text \<open>
  C6. A resource request in the wildcard cluster (the cluster of the context has
  \<open>Wildcard\<close> set) with a verb other than \<open>list\<close> and \<open>watch\<close> is answered with a
  MethodNotSupported status, code 405, whose message contains
  \<^verbatim>\<open> in the `*` logical cluster\<close>, and the wrapped handler is not called.
\<close>

theorem WithWildcardListWatchGuard_rejects:
  assumes "ctx_cluster (req_Context req) = Some cluster"
    and "cluster_Wildcard cluster"
    and "ctx_requestInfo (req_Context req) = Some requestInfo"
    and "ri_IsResourceRequest requestInfo"
    and "ri_Verb requestInfo \<noteq> ''list''" and "ri_Verb requestInfo \<noteq> ''watch''"
  shows "responded_Code (WithWildcardListWatchGuard req) = Some 405 \<and>
         (\<exists>msg. responded_Message (WithWildcardListWatchGuard req) = Some msg \<and>
                strings_Contains msg '' in the `*` logical cluster'') \<and>
         \<not> forwarded (WithWildcardListWatchGuard req)"
proof -
  let ?st = "NewMethodNotSupported (ri_APIGroup requestInfo) (ri_Resource requestInfo)
               (ri_Verb requestInfo)"
  let ?msg = "status_Message ?st @ '' in the `*` logical cluster''"
  have out: "WithWildcardListWatchGuard req = Respond (?st\<lparr>status_Message := ?msg\<rparr>)"
    using assms by (simp add: WithWildcardListWatchGuard_def Let_def)
  have code: "responded_Code (WithWildcardListWatchGuard req) = Some 405"
    unfolding out by (simp add: responded_Code_def NewMethodNotSupported_def)
  have msg: "responded_Message (WithWildcardListWatchGuard req) = Some ?msg"
    unfolding out by (simp add: responded_Message_def)
  have "strings_Contains ?msg '' in the `*` logical cluster''"
    by (rule strings_Contains_suffix)
  with msg have "\<exists>msg. responded_Message (WithWildcardListWatchGuard req) = Some msg \<and>
      strings_Contains msg '' in the `*` logical cluster''"
    by blast
  moreover have "\<not> forwarded (WithWildcardListWatchGuard req)"
    unfolding out by (simp add: forwarded_def)
  ultimately show ?thesis using code by blast
qed

theorem WithWildcardListWatchGuard_rejects_witness:
  "ctx_cluster (req_Context (wildcardRequest ''/api/v1/pods'' [] getPods)) = Some wildcardCluster \<and>
   cluster_Wildcard wildcardCluster \<and>
   ctx_requestInfo (req_Context (wildcardRequest ''/api/v1/pods'' [] getPods)) = Some getPods \<and>
   ri_IsResourceRequest getPods \<and>
   ri_Verb getPods \<noteq> ''list'' \<and> ri_Verb getPods \<noteq> ''watch'' \<and>
   responded_Code (WithWildcardListWatchGuard (wildcardRequest ''/api/v1/pods'' [] getPods))
     = Some 405 \<and>
   (\<exists>msg. responded_Message (WithWildcardListWatchGuard
            (wildcardRequest ''/api/v1/pods'' [] getPods)) = Some msg \<and>
          strings_Contains msg '' in the `*` logical cluster'') \<and>
   \<not> forwarded (WithWildcardListWatchGuard (wildcardRequest ''/api/v1/pods'' [] getPods))"
  using WithWildcardListWatchGuard_rejects
    [of "wildcardRequest ''/api/v1/pods'' [] getPods" wildcardCluster getPods]
  by (simp add: wildcardRequest_def wildcardCluster_def getPods_def)

text \<open>The whole message for \<open>get\<close> on \<open>pods\<close>.\<close>

lemma WithWildcardListWatchGuard_message:
  "responded_Message (WithWildcardListWatchGuard (wildcardRequest ''/api/v1/pods'' [] getPods))
     = Some (''get is not supported on resources of kind '' @ [CHR 0x22] @ ''pods'' @ [CHR 0x22]
          @ '' in the `*` logical cluster'')"
  by (simp add: wildcardRequest_def wildcardCluster_def getPods_def WithWildcardListWatchGuard_def
      NewMethodNotSupported_def GroupResource_String_def fmt_q_def responded_Message_def Let_def)

section \<open>\<open>WithWildcardIdentity\<close>\<close>

text \<open>
  The handler on a list or watch resource request in the wildcard cluster whose
  \<open>requestInfo.Resource\<close> has its first colon at index \<open>i\<close>: with nothing after the
  colon the answer is an InternalError status, code 500, and the wrapped handler is not
  called; otherwise the wrapped handler is called with the identity (the text after
  the colon) in the context, \<open>requestInfo.Resource\<close> cut to the text before the colon,
  and \<open>URL.Path\<close> and \<open>URL.RawPath\<close> as \<open>strings.Replace\<close> leaves them.
\<close>

lemma WithWildcardIdentity_identity:
  assumes "ctx_cluster (req_Context req) = Some cluster"
    and "cluster_Wildcard cluster"
    and "ctx_requestInfo (req_Context req) = Some requestInfo"
    and "ri_IsResourceRequest requestInfo"
    and "ri_Verb requestInfo \<in> {''list'', ''watch''}"
    and "strings_Index (ri_Resource requestInfo) '':'' = Some i"
  shows "(drop (Suc i) (ri_Resource requestInfo) = [] \<longrightarrow>
            responded_Code (WithWildcardIdentity req) = Some 500 \<and>
            \<not> forwarded (WithWildcardIdentity req)) \<and>
         (drop (Suc i) (ri_Resource requestInfo) \<noteq> [] \<longrightarrow>
            (\<exists>req'. WithWildcardIdentity req = Next req' \<and>
               ctx_identity (req_Context req') = Some (drop (Suc i) (ri_Resource requestInfo)) \<and>
               ctx_requestInfo (req_Context req') =
                 Some (requestInfo\<lparr>ri_Resource := take i (ri_Resource requestInfo)\<rparr>) \<and>
               URL_Path req' = strings_Replace1 (URL_Path req) (ri_Resource requestInfo)
                                 (take i (ri_Resource requestInfo)) \<and>
               URL_RawPath req' = strings_Replace1 (URL_RawPath req) (ri_Resource requestInfo)
                                 (take i (ri_Resource requestInfo))))"
  using assms
  by (simp add: WithWildcardIdentity_def processResourceIdentity_def Let_def responded_Code_def
      forwarded_def NewInternalError_def)

lemma WithWildcardIdentity_widgets:
  "ctx_cluster (req_Context (wildcardRequest ''/apis/foo/v1/widgets:idabc123'' []
      (listWidgets ''widgets:idabc123''))) = Some wildcardCluster \<and>
   cluster_Wildcard wildcardCluster \<and>
   ctx_requestInfo (req_Context (wildcardRequest ''/apis/foo/v1/widgets:idabc123'' []
      (listWidgets ''widgets:idabc123''))) = Some (listWidgets ''widgets:idabc123'') \<and>
   ri_IsResourceRequest (listWidgets ''widgets:idabc123'') \<and>
   ri_Verb (listWidgets ''widgets:idabc123'') \<in> {''list'', ''watch''} \<and>
   strings_Index (ri_Resource (listWidgets ''widgets:idabc123'')) '':'' = Some 7 \<and>
   (\<exists>req'. WithWildcardIdentity (wildcardRequest ''/apis/foo/v1/widgets:idabc123'' []
        (listWidgets ''widgets:idabc123'')) = Next req' \<and>
      ctx_identity (req_Context req') = Some ''idabc123'' \<and>
      ctx_requestInfo (req_Context req') = Some (listWidgets ''widgets'') \<and>
      URL_Path req' = ''/apis/foo/v1/widgets'' \<and>
      URL_RawPath req' = []) \<and>
   strings_Index (ri_Resource (listWidgets ''widgets:'')) '':'' = Some 7 \<and>
   responded_Code (WithWildcardIdentity (wildcardRequest ''/apis/foo/v1/widgets:'' []
      (listWidgets ''widgets:''))) = Some 500 \<and>
   \<not> forwarded (WithWildcardIdentity (wildcardRequest ''/apis/foo/v1/widgets:'' []
      (listWidgets ''widgets:'')))"
  using WithWildcardIdentity_identity
    [of "wildcardRequest ''/apis/foo/v1/widgets:idabc123'' [] (listWidgets ''widgets:idabc123'')"
        wildcardCluster "listWidgets ''widgets:idabc123''" 7]
    WithWildcardIdentity_identity
    [of "wildcardRequest ''/apis/foo/v1/widgets:'' [] (listWidgets ''widgets:'')"
        wildcardCluster "listWidgets ''widgets:''" 7]
  by (simp add: wildcardRequest_def wildcardCluster_def listWidgets_def NewRequest_def
      strings_HasPrefix_def strings_Replace1_def)

text \<open>
  Where the path has an occurrence of \<open><resource>:<identity>\<close>, the first one (at index
  \<open>k\<close>) loses its \<open>:<identity>\<close> and the rest of the path stays.
\<close>

lemma WithWildcardIdentity_first_occurrence:
  assumes "ctx_cluster (req_Context req) = Some cluster"
    and "cluster_Wildcard cluster"
    and "ctx_requestInfo (req_Context req) = Some requestInfo"
    and "ri_IsResourceRequest requestInfo"
    and "strings_Index (ri_Resource requestInfo) '':'' = Some i"
    and "drop (Suc i) (ri_Resource requestInfo) \<noteq> []"
    and "strings_Index (URL_Path req) (ri_Resource requestInfo) = Some k"
  shows "URL_Path req = take k (URL_Path req) @ ri_Resource requestInfo @
             drop (k + length (ri_Resource requestInfo)) (URL_Path req) \<and>
         map_option URL_Path (next_Request (WithWildcardIdentity req)) =
           Some (take k (URL_Path req) @ take i (ri_Resource requestInfo) @
             drop (k + length (ri_Resource requestInfo)) (URL_Path req))"
  using assms strings_Replace1_occurrence(1) [OF assms(7)]
    strings_Replace1_occurrence(2) [OF assms(7), of "take i (ri_Resource requestInfo)"]
  by (simp add: WithWildcardIdentity_def processResourceIdentity_def Let_def next_Request_def)

text \<open>
  C7 at two list requests of the wildcard cluster whose \<open>requestInfo.Resource\<close> has a
  colon with an identity after it. The paths are rewritten by
  \<open>strings.Replace(s, requestInfo.Resource, resource, 1)\<close>, which needs a literal
  occurrence and takes the first one. The request line
  \<open>/apis/foo/v1/widgets%3Aidabc123\<close> has the path \<open>/apis/foo/v1/widgets:idabc123\<close> and the
  raw path \<open>/apis/foo/v1/widgets%3Aidabc123\<close>: the identity \<open>idabc123\<close> goes into the
  context, the path handed on is \<open>/apis/foo/v1/widgets\<close>, and the raw path is handed on
  as it came, the identity still in it. In the path \<open>/apis/a:b/v1/a:b\<close> the first
  occurrence of \<open>a:b\<close> is the group: the path handed on is \<open>/apis/a/v1/a:b\<close>, the
  suffix still on the resource.
\<close>

theorem WithWildcardIdentity_suffix_kept:
  "ctx_cluster (req_Context (wildcardRequest ''/apis/foo/v1/widgets:idabc123''
      ''/apis/foo/v1/widgets%3Aidabc123'' (listWidgets ''widgets:idabc123''))) =
     Some wildcardCluster \<and>
   cluster_Wildcard wildcardCluster \<and>
   ctx_requestInfo (req_Context (wildcardRequest ''/apis/foo/v1/widgets:idabc123''
      ''/apis/foo/v1/widgets%3Aidabc123'' (listWidgets ''widgets:idabc123''))) =
     Some (listWidgets ''widgets:idabc123'') \<and>
   ri_IsResourceRequest (listWidgets ''widgets:idabc123'') \<and>
   ri_Verb (listWidgets ''widgets:idabc123'') = ''list'' \<and>
   ri_Resource (listWidgets ''widgets:idabc123'') = ''widgets'' @ '':'' @ ''idabc123'' \<and>
   map_option (ctx_identity \<circ> req_Context) (next_Request (WithWildcardIdentity
      (wildcardRequest ''/apis/foo/v1/widgets:idabc123'' ''/apis/foo/v1/widgets%3Aidabc123''
        (listWidgets ''widgets:idabc123'')))) = Some (Some ''idabc123'') \<and>
   map_option URL_Path (next_Request (WithWildcardIdentity
      (wildcardRequest ''/apis/foo/v1/widgets:idabc123'' ''/apis/foo/v1/widgets%3Aidabc123''
        (listWidgets ''widgets:idabc123'')))) = Some ''/apis/foo/v1/widgets'' \<and>
   map_option URL_RawPath (next_Request (WithWildcardIdentity
      (wildcardRequest ''/apis/foo/v1/widgets:idabc123'' ''/apis/foo/v1/widgets%3Aidabc123''
        (listWidgets ''widgets:idabc123'')))) = Some ''/apis/foo/v1/widgets%3Aidabc123'' \<and>
   ri_Resource ((listWidgets ''a:b'')\<lparr>ri_APIGroup := ''a:b''\<rparr>) = ''a'' @ '':'' @ ''b'' \<and>
   map_option URL_Path (next_Request (WithWildcardIdentity
      (wildcardRequest ''/apis/a:b/v1/a:b'' [] ((listWidgets ''a:b'')\<lparr>ri_APIGroup := ''a:b''\<rparr>)))) =
     Some ''/apis/a/v1/a:b''"
  by (simp add: wildcardRequest_def wildcardCluster_def listWidgets_def NewRequest_def
      WithWildcardIdentity_def processResourceIdentity_def next_Request_def Let_def
      strings_HasPrefix_def strings_Replace1_def)

section \<open>Discovery of the core group\<close>

lemma sorted_names_sort_key: "sorted (map ar_Name (sort_key ar_Name xs))"
  by (rule sorted_sort_key)

lemma distinct_names_sort_key:
  "distinct (map ar_Name (sort_key ar_Name xs)) = distinct (map ar_Name xs)"
proof -
  have "mset (map ar_Name (sort_key ar_Name xs)) = mset (map ar_Name xs)"
    by simp
  then show ?thesis by (rule mset_eq_imp_distinct_iff)
qed

text \<open>
  C2, as the code has it. For a discovery request of the core group (\<open>/api/v1\<close> or
  \<open>/api/v1/\<close>) without the passthrough header, when the lister returns the CRDs, the
  nested native handler answers 200 and its body decodes as an \<open>APIResourceList\<close>: the
  list served holds exactly the native resources and the CRD-derived resources, each
  entry as often as the two lists have it, in non-decreasing order of name, entries of
  one name in their order of arrival (native first). No name occurs twice in it exactly
  when neither list repeats a name and the lists share no name.
\<close>

theorem mergeCRDsIntoCoreGroup_discovery:
  assumes "ctx_requestInfo (req_Context req) = Some requestInfo"
    and "ri_APIGroup requestInfo = []"
    and "\<not> ri_IsResourceRequest requestInfo"
    and "URL_Path req = ''/api/v1'' \<or> URL_Path req = ''/api/v1/''"
    and "Header req passthroughHeader = None"
    and "crdLister_List = Inr crds"
    and "respCode (runHandler
           (coreHandler (req\<lparr>Header := Header_Add (Header req) passthroughHeader ''1''\<rparr>))
           newInMemoryResponseWriter) = 200"
    and "Decode (data (runHandler
           (coreHandler (req\<lparr>Header := Header_Add (Header req) passthroughHeader ''1''\<rparr>))
           newInMemoryResponseWriter)) = Decoded v1ResourceList"
  shows "\<exists>served.
      mergeCRDsIntoCoreGroup crdLister_List crdLister_Get APIResourcesForGroupVersion
        coreHandler Decode req = CoreV1Discovery (VersionHandler served) \<and>
      mset served = mset (arl_APIResources v1ResourceList)
                  + mset (APIResourcesForGroupVersion [] ''v1'' crds) \<and>
      sorted (map ar_Name served) \<and>
      (\<forall>n. filter (\<lambda>r. ar_Name r = n) served =
           filter (\<lambda>r. ar_Name r = n) (arl_APIResources v1ResourceList) @
           filter (\<lambda>r. ar_Name r = n) (APIResourcesForGroupVersion [] ''v1'' crds)) \<and>
      (distinct (map ar_Name served) \<longleftrightarrow>
         distinct (map ar_Name (arl_APIResources v1ResourceList)) \<and>
         distinct (map ar_Name (APIResourcesForGroupVersion [] ''v1'' crds)) \<and>
         ar_Name ` set (arl_APIResources v1ResourceList) \<inter>
         ar_Name ` set (APIResourcesForGroupVersion [] ''v1'' crds) = {})"
proof -
  let ?all = "arl_APIResources v1ResourceList @ APIResourcesForGroupVersion [] ''v1'' crds"
  have out: "mergeCRDsIntoCoreGroup crdLister_List crdLister_Get APIResourcesForGroupVersion
        coreHandler Decode req = CoreV1Discovery (VersionHandler (sort_key ar_Name ?all))"
    using assms by (auto simp: mergeCRDsIntoCoreGroup_def serveCoreV1Discovery_def Let_def)
  have m: "mset (sort_key ar_Name ?all) = mset (arl_APIResources v1ResourceList)
                  + mset (APIResourcesForGroupVersion [] ''v1'' crds)"
    by simp
  have s: "sorted (map ar_Name (sort_key ar_Name ?all))"
    by (rule sorted_names_sort_key)
  have st: "filter (\<lambda>r. ar_Name r = n) (sort_key ar_Name ?all) =
           filter (\<lambda>r. ar_Name r = n) (arl_APIResources v1ResourceList) @
           filter (\<lambda>r. ar_Name r = n) (APIResourcesForGroupVersion [] ''v1'' crds)" for n
    by (simp add: sort_key_stable)
  have d: "distinct (map ar_Name (sort_key ar_Name ?all)) \<longleftrightarrow>
         distinct (map ar_Name (arl_APIResources v1ResourceList)) \<and>
         distinct (map ar_Name (APIResourcesForGroupVersion [] ''v1'' crds)) \<and>
         ar_Name ` set (arl_APIResources v1ResourceList) \<inter>
         ar_Name ` set (APIResourcesForGroupVersion [] ''v1'' crds) = {}"
    by (simp add: distinct_names_sort_key)
  from out m s st d show ?thesis by blast
qed

text \<open>The byte order of names at work.\<close>

lemma sort_two_names:
  "sort_key ar_Name [resourceNamed ''pods'' ''Pod'', resourceNamed ''foos'' ''Foo''] =
     [resourceNamed ''foos'' ''Foo'', resourceNamed ''pods'' ''Pod'']"
  by (simp add: resourceNamed_def less_eq_char_def)

text \<open>
  Nothing removes duplicates: with a native \<open>configmaps\<close> and a CRD-derived
  \<open>configmaps\<close> the list served has two entries of that name.
\<close>

theorem mergeCRDsIntoCoreGroup_duplicate_names:
  "mergeCRDsIntoCoreGroup (Inr [resourceNamed ''configmaps'' ''MyConfigMap'']) noCRD crdResources
     (nativeHandler ''APIResourceList[configmaps]'') exampleDecode discoveryRequest =
   CoreV1Discovery (VersionHandler
     [resourceNamed ''configmaps'' ''ConfigMap'', resourceNamed ''configmaps'' ''MyConfigMap'']) \<and>
   ar_Name (resourceNamed ''configmaps'' ''ConfigMap'') =
   ar_Name (resourceNamed ''configmaps'' ''MyConfigMap'')"
  by (simp add: mergeCRDsIntoCoreGroup_def serveCoreV1Discovery_def discoveryRequest_def
      discoveryInfo_def NewRequest_def Background_def passthroughHeader_def nativeHandler_def
      Write_def WriteHeader_def newInMemoryResponseWriter_def exampleDecode_def crdResources_def
      resourceNamed_def Let_def)

lemma nativeHandler_writer:
  "runHandler (nativeHandler body r) newInMemoryResponseWriter =
     \<lparr>writeHeaderCalled = True, header = Map.empty, respCode = 200, data = body\<rparr>"
  by (simp add: nativeHandler_def Write_def WriteHeader_def newInMemoryResponseWriter_def)

theorem mergeCRDsIntoCoreGroup_discovery_witness:
  "ctx_requestInfo (req_Context discoveryRequest) = Some discoveryInfo \<and>
   ri_APIGroup discoveryInfo = [] \<and>
   \<not> ri_IsResourceRequest discoveryInfo \<and>
   (URL_Path discoveryRequest = ''/api/v1'' \<or> URL_Path discoveryRequest = ''/api/v1/'') \<and>
   Header discoveryRequest passthroughHeader = None \<and>
   respCode (runHandler
     (nativeHandler ''APIResourceList[pods]''
        (discoveryRequest\<lparr>Header := Header_Add (Header discoveryRequest) passthroughHeader ''1''\<rparr>))
     newInMemoryResponseWriter) = 200 \<and>
   exampleDecode (data (runHandler
     (nativeHandler ''APIResourceList[pods]''
        (discoveryRequest\<lparr>Header := Header_Add (Header discoveryRequest) passthroughHeader ''1''\<rparr>))
     newInMemoryResponseWriter)) =
     Decoded \<lparr>arl_GroupVersion = ''v1'', arl_APIResources = [resourceNamed ''pods'' ''Pod'']\<rparr> \<and>
   (\<exists>served.
      mergeCRDsIntoCoreGroup (Inr [resourceNamed ''foos'' ''Foo'']) noCRD crdResources
        (nativeHandler ''APIResourceList[pods]'') exampleDecode discoveryRequest
        = CoreV1Discovery (VersionHandler served) \<and>
      mset served = {#resourceNamed ''pods'' ''Pod'', resourceNamed ''foos'' ''Foo''#} \<and>
      sorted (map ar_Name served) \<and>
      distinct (map ar_Name served))"
proof -
  let ?cr = "discoveryRequest\<lparr>Header := Header_Add (Header discoveryRequest) passthroughHeader ''1''\<rparr>"
  let ?v1 = "\<lparr>arl_GroupVersion = ''v1'', arl_APIResources = [resourceNamed ''pods'' ''Pod'']\<rparr>"
  have h1: "ctx_requestInfo (req_Context discoveryRequest) = Some discoveryInfo"
    by (simp add: discoveryRequest_def)
  have h2: "ri_APIGroup discoveryInfo = []" and h3: "\<not> ri_IsResourceRequest discoveryInfo"
    by (simp_all add: discoveryInfo_def)
  have h4: "URL_Path discoveryRequest = ''/api/v1'' \<or> URL_Path discoveryRequest = ''/api/v1/''"
    by (simp add: discoveryRequest_def NewRequest_def)
  have h5: "Header discoveryRequest passthroughHeader = None"
    by (simp add: discoveryRequest_def NewRequest_def)
  have h6: "respCode (runHandler (nativeHandler ''APIResourceList[pods]'' ?cr)
              newInMemoryResponseWriter) = 200"
    by (simp add: nativeHandler_writer)
  have h7: "exampleDecode (data (runHandler (nativeHandler ''APIResourceList[pods]'' ?cr)
              newInMemoryResponseWriter)) = Decoded ?v1"
    by (simp add: nativeHandler_writer exampleDecode_def)
  have names: "ar_Name (resourceNamed ''pods'' ''Pod'') \<noteq> ar_Name (resourceNamed ''foos'' ''Foo'')"
    by (simp add: resourceNamed_def)
  from mergeCRDsIntoCoreGroup_discovery
    [where crdLister_List = "Inr [resourceNamed ''foos'' ''Foo'']" and crdLister_Get = noCRD
       and APIResourcesForGroupVersion = crdResources
       and coreHandler = "nativeHandler ''APIResourceList[pods]''" and Decode = exampleDecode,
     OF h1 h2 h3 h4 h5 refl h6 h7]
  obtain served where
    "mergeCRDsIntoCoreGroup (Inr [resourceNamed ''foos'' ''Foo'']) noCRD crdResources
        (nativeHandler ''APIResourceList[pods]'') exampleDecode discoveryRequest
        = CoreV1Discovery (VersionHandler served)"
    "mset served = {#resourceNamed ''pods'' ''Pod'', resourceNamed ''foos'' ''Foo''#}"
    "sorted (map ar_Name served)"
    "distinct (map ar_Name served)"
    using names by (auto simp: crdResources_def)
  with h1 h2 h3 h4 h5 h6 h7 show ?thesis by blast
qed

text \<open>Native \<open>pods\<close> and a CRD-derived \<open>foos\<close>: the list served.\<close>

lemma mergeCRDsIntoCoreGroup_pods_and_foos:
  "mergeCRDsIntoCoreGroup (Inr [resourceNamed ''foos'' ''Foo'']) noCRD crdResources
     (nativeHandler ''APIResourceList[pods]'') exampleDecode discoveryRequest =
   CoreV1Discovery (VersionHandler [resourceNamed ''foos'' ''Foo'', resourceNamed ''pods'' ''Pod''])"
  by (simp add: mergeCRDsIntoCoreGroup_def serveCoreV1Discovery_def discoveryRequest_def
      discoveryInfo_def NewRequest_def Background_def passthroughHeader_def nativeHandler_writer
      exampleDecode_def crdResources_def Let_def resourceNamed_def less_eq_char_def)

section \<open>\<open>path.Join\<close>\<close>

lemma splitOn_append_sep:
  "d \<notin> set a \<Longrightarrow> splitOn d (a @ d # rest) = a # splitOn d rest"
  by (induction a) auto

lemma splitOn_no_sep: "d \<notin> set a \<Longrightarrow> splitOn d a = [a]"
  by (induction a) auto

lemma splitOn_strings_Join:
  "segs \<noteq> [] \<Longrightarrow> \<forall>s \<in> set segs. d \<notin> set s \<Longrightarrow> splitOn d (strings_Join segs [d]) = segs"
proof (induction segs "[d]" rule: strings_Join.induct)
  case 1
  then show ?case by simp
next
  case (2 e)
  then show ?case by (simp add: splitOn_no_sep)
next
  case (3 e v va)
  then show ?case by (simp add: splitOn_append_sep)
qed

lemma cleanElems_elements:
  "list_all pathElement es \<Longrightarrow> cleanElems rooted out es = out @ es"
  by (induction es arbitrary: out) (auto simp: pathElement_def)

lemma strings_Join_Cons: "es \<noteq> [] \<Longrightarrow> strings_Join (e # es) sep = e @ sep @ strings_Join es sep"
  by (cases es) auto

text \<open>
  On a cluster name that is one path element and a clean rooted path other than \<open>/\<close>,
  \<open>path.Join\<close> is the concatenation.
\<close>

lemma path_Join_clusters:
  assumes c: "pathElement c" and segs: "segs \<noteq> []" "list_all pathElement segs"
    and p: "p = CHR ''/'' # strings_Join segs ''/''"
  shows "path_Join [''/clusters'', c, p] = ''/clusters/'' @ c @ p"
proof -
  have nc: "CHR ''/'' \<notin> set c" using c by (simp add: pathElement_def)
  have ns: "\<forall>s \<in> set segs. CHR ''/'' \<notin> set s"
    using segs(2) by (auto simp: list_all_iff pathElement_def)
  have buf: "joinBuf [] [''/clusters'', c, p] = ''/clusters/'' @ c @ ''/'' @ p"
    by simp
  have sp1: "splitOn CHR ''/'' (c @ CHR ''/'' # CHR ''/'' # strings_Join segs ''/'') =
               c # [] # segs"
    using splitOn_append_sep [OF nc, of "CHR ''/'' # strings_Join segs ''/''"]
      splitOn_strings_Join [OF segs(1) ns]
    by simp
  have sp: "splitOn CHR ''/'' (''/clusters/'' @ c @ ''/'' @ p) = [] # ''clusters'' # c # [] # segs"
    using sp1 by (simp add: p)
  have "cleanElems True [] ([] # ''clusters'' # c # [] # segs) =
          cleanElems True [''clusters'', c] segs"
    using c by (simp add: pathElement_def)
  also have "\<dots> = [''clusters'', c] @ segs"
    by (rule cleanElems_elements [OF segs(2)])
  finally have ce: "cleanElems True [] ([] # ''clusters'' # c # [] # segs) = ''clusters'' # c # segs"
    by simp
  have "path_Clean (''/clusters/'' @ c @ ''/'' @ p) = CHR ''/'' # strings_Join (''clusters'' # c # segs) ''/''"
    unfolding path_Clean_def sp [symmetric] Let_def using ce sp by simp
  also have "\<dots> = ''/clusters/'' @ c @ p"
    using segs(1) by (simp add: strings_Join_Cons p)
  finally show ?thesis
    unfolding path_Join_def buf by simp
qed

section \<open>\<open>WithInClusterServiceAccountRequestRewrite\<close>\<close>

text \<open>
  C8, as the code has it. For a request with neither the cluster header nor the header
  \<open>X-Kubernetes-Sharded-Request\<close>, whose \<open>RequestURI\<close> does not start with
  \<open>/clusters/\<close>: when the \<open>Authorization\<close> header is \<open>Bearer\<close> and a token that parses,
  whose claims are read, and the claims hold the string \<open>kubernetes.io.clusterName\<close> (or,
  without it, the legacy \<open>kubernetes.io/serviceaccount/clusterName\<close>), the wrapped handler
  is called with \<open>URL.Path\<close> and \<open>RequestURI\<close> set to
  \<open>path.Join("/clusters", clusterName, old)\<close>; for a cluster name that is one path element
  and a clean rooted path other than \<open>/\<close> that is \<open>/clusters/<clusterName>\<close> put in
  front. When the header is no bearer token, the token does not parse, the claims cannot
  be read, or neither claim is a string that is there, the wrapped handler is called
  with the request as it came.
\<close>

theorem WithInClusterServiceAccountRequestRewrite_rewrites:
  assumes "Header_Get (Header req) ClusterHeader = []"
    and "Header_Get (Header req) ''X-Kubernetes-Sharded-Request'' = []"
    and "\<not> strings_HasPrefix (RequestURI req) ''/clusters/''"
  shows
    "(Header_Get (Header req) ''Authorization'' = ''Bearer '' @ token \<and>
      ParseSigned token = Some jws \<and>
      UnsafeClaimsWithoutVerification jws = Some claims \<and>
      (NestedString claims [''kubernetes.io'', ''clusterName''] = Found c \<or>
       (\<forall>c'. NestedString claims [''kubernetes.io'', ''clusterName''] \<noteq> Found c') \<and>
       NestedString claims [''kubernetes.io/serviceaccount/clusterName''] = Found c) \<longrightarrow>
        WithInClusterServiceAccountRequestRewrite ParseSigned UnsafeClaimsWithoutVerification req =
          Next (req\<lparr>URL_Path := path_Join [''/clusters'', c, URL_Path req],
                    RequestURI := path_Join [''/clusters'', c, RequestURI req]\<rparr>) \<and>
        (pathElement c \<and> segs \<noteq> [] \<and> list_all pathElement segs \<and>
         URL_Path req = CHR ''/'' # strings_Join segs ''/'' \<longrightarrow>
           path_Join [''/clusters'', c, URL_Path req] = ''/clusters/'' @ c @ URL_Path req) \<and>
        (pathElement c \<and> usegs \<noteq> [] \<and> list_all pathElement usegs \<and>
         RequestURI req = CHR ''/'' # strings_Join usegs ''/'' \<longrightarrow>
           path_Join [''/clusters'', c, RequestURI req] = ''/clusters/'' @ c @ RequestURI req)) \<and>
     (\<not> strings_HasPrefix (Header_Get (Header req) ''Authorization'') ''Bearer '' \<or>
      ParseSigned (drop (length ''Bearer '') (Header_Get (Header req) ''Authorization'')) = None \<or>
      (\<exists>jws'. ParseSigned (drop (length ''Bearer '') (Header_Get (Header req) ''Authorization'')) = Some jws' \<and>
         (UnsafeClaimsWithoutVerification jws' = None \<or>
          (\<exists>claims'. UnsafeClaimsWithoutVerification jws' = Some claims' \<and>
             (\<forall>c'. NestedString claims' [''kubernetes.io'', ''clusterName''] \<noteq> Found c') \<and>
             (\<forall>c'. NestedString claims' [''kubernetes.io/serviceaccount/clusterName'']
                    \<noteq> Found c')))) \<longrightarrow>
        WithInClusterServiceAccountRequestRewrite ParseSigned UnsafeClaimsWithoutVerification req =
          Next req)"
proof (intro conjI impI)
  assume h: "Header_Get (Header req) ''Authorization'' = ''Bearer '' @ token \<and>
      ParseSigned token = Some jws \<and>
      UnsafeClaimsWithoutVerification jws = Some claims \<and>
      (NestedString claims [''kubernetes.io'', ''clusterName''] = Found c \<or>
       (\<forall>c'. NestedString claims [''kubernetes.io'', ''clusterName''] \<noteq> Found c') \<and>
       NestedString claims [''kubernetes.io/serviceaccount/clusterName''] = Found c)"
  then have pre: "strings_HasPrefix (Header_Get (Header req) ''Authorization'') ''Bearer ''"
    and tok: "drop (length ''Bearer '') (Header_Get (Header req) ''Authorization'') = token"
    by (simp_all add: strings_HasPrefix_def)
  from h show "WithInClusterServiceAccountRequestRewrite ParseSigned
        UnsafeClaimsWithoutVerification req =
          Next (req\<lparr>URL_Path := path_Join [''/clusters'', c, URL_Path req],
                    RequestURI := path_Join [''/clusters'', c, RequestURI req]\<rparr>)"
    using assms pre tok
    by (auto simp: WithInClusterServiceAccountRequestRewrite_def rewriteToCluster_def Let_def
        split: nested_string.splits)
next
  assume "pathElement c \<and> segs \<noteq> [] \<and> list_all pathElement segs \<and>
         URL_Path req = CHR ''/'' # strings_Join segs ''/''"
  then show "path_Join [''/clusters'', c, URL_Path req] = ''/clusters/'' @ c @ URL_Path req"
    using path_Join_clusters by blast
next
  assume "pathElement c \<and> usegs \<noteq> [] \<and> list_all pathElement usegs \<and>
         RequestURI req = CHR ''/'' # strings_Join usegs ''/''"
  then show "path_Join [''/clusters'', c, RequestURI req] = ''/clusters/'' @ c @ RequestURI req"
    using path_Join_clusters by blast
next
  assume "\<not> strings_HasPrefix (Header_Get (Header req) ''Authorization'') ''Bearer '' \<or>
      ParseSigned (drop (length ''Bearer '') (Header_Get (Header req) ''Authorization'')) = None \<or>
      (\<exists>jws'. ParseSigned (drop (length ''Bearer '') (Header_Get (Header req) ''Authorization'')) = Some jws' \<and>
         (UnsafeClaimsWithoutVerification jws' = None \<or>
          (\<exists>claims'. UnsafeClaimsWithoutVerification jws' = Some claims' \<and>
             (\<forall>c'. NestedString claims' [''kubernetes.io'', ''clusterName''] \<noteq> Found c') \<and>
             (\<forall>c'. NestedString claims' [''kubernetes.io/serviceaccount/clusterName'']
                    \<noteq> Found c'))))"
  then show "WithInClusterServiceAccountRequestRewrite ParseSigned
      UnsafeClaimsWithoutVerification req = Next req"
    using assms
    by (auto simp: WithInClusterServiceAccountRequestRewrite_def Let_def
        split: nested_string.splits option.splits)
qed

lemma exampleClaims_bound:
  "NestedString [(''iss'', JString ''kubernetes/serviceaccount''),
        (''kubernetes.io'', JObject [(''clusterName'', JString ''root:org'')])]
      [''kubernetes.io'', ''clusterName''] = Found ''root:org''"
  by (simp add: NestedString_def)

theorem WithInClusterServiceAccountRequestRewrite_rewrites_witness:
  "Header_Get (Header (bearerRequest ''/api/v1/pods'' ''Bearer header.bound.signature'' []))
     ClusterHeader = [] \<and>
   Header_Get (Header (bearerRequest ''/api/v1/pods'' ''Bearer header.bound.signature'' []))
     ''X-Kubernetes-Sharded-Request'' = [] \<and>
   \<not> strings_HasPrefix
     (RequestURI (bearerRequest ''/api/v1/pods'' ''Bearer header.bound.signature'' []))
     ''/clusters/'' \<and>
   Header_Get (Header (bearerRequest ''/api/v1/pods'' ''Bearer header.bound.signature'' []))
     ''Authorization'' = ''Bearer '' @ ''header.bound.signature'' \<and>
   exampleParseSigned ''header.bound.signature'' = Some ''bound'' \<and>
   exampleClaims ''bound'' =
     Some [(''iss'', JString ''kubernetes/serviceaccount''),
           (''kubernetes.io'', JObject [(''clusterName'', JString ''root:org'')])] \<and>
   pathElement ''root:org'' \<and> list_all pathElement [''api'', ''v1'', ''pods''] \<and>
   WithInClusterServiceAccountRequestRewrite exampleParseSigned exampleClaims
     (bearerRequest ''/api/v1/pods'' ''Bearer header.bound.signature'' []) =
   Next ((bearerRequest ''/api/v1/pods'' ''Bearer header.bound.signature'' [])
     \<lparr>URL_Path := ''/clusters/root:org/api/v1/pods'',
      RequestURI := ''/clusters/root:org/api/v1/pods''\<rparr>) \<and>
   \<not> strings_HasPrefix
     (Header_Get (Header (bearerRequest ''/api/v1/pods'' ''Basic dXNlcjpwdw=='' [])) ''Authorization'')
     ''Bearer '' \<and>
   WithInClusterServiceAccountRequestRewrite exampleParseSigned exampleClaims
     (bearerRequest ''/api/v1/pods'' ''Basic dXNlcjpwdw=='' []) =
   Next (bearerRequest ''/api/v1/pods'' ''Basic dXNlcjpwdw=='' [])"
  using WithInClusterServiceAccountRequestRewrite_rewrites
    [of "bearerRequest ''/api/v1/pods'' ''Bearer header.bound.signature'' []"
        "''header.bound.signature''" exampleParseSigned "''bound''" exampleClaims
        "[(''iss'', JString ''kubernetes/serviceaccount''),
          (''kubernetes.io'', JObject [(''clusterName'', JString ''root:org'')])]"
        "''root:org''" "[''api'', ''v1'', ''pods'']" "[''api'', ''v1'', ''pods'']"]
    WithInClusterServiceAccountRequestRewrite_rewrites
    [of "bearerRequest ''/api/v1/pods'' ''Basic dXNlcjpwdw=='' []"
        "[]" exampleParseSigned "[]" exampleClaims "[]" "[]" "[]" "[]"]
  by (simp add: bearerRequest_def NewRequest_def Header_Get_def ClusterHeader_def
      strings_HasPrefix_def exampleParseSigned_def exampleClaims_def exampleClaims_bound
      pathElement_def)

text \<open>
  The header \<open>X-Kubernetes-Sharded-Request\<close> turns the rewrite off: the request has no
  cluster header and no \<open>/clusters/\<close> prefix, its bearer token carries
  \<open>kubernetes.io.clusterName\<close>, and it is handed on as it came.
\<close>

theorem WithInClusterServiceAccountRequestRewrite_sharded_header:
  "Header_Get (Header (bearerRequest ''/api/v1/pods'' ''Bearer header.bound.signature''
       [(''X-Kubernetes-Sharded-Request'', [''true''])])) ClusterHeader = [] \<and>
   \<not> strings_HasPrefix (URL_Path (bearerRequest ''/api/v1/pods'' ''Bearer header.bound.signature''
       [(''X-Kubernetes-Sharded-Request'', [''true''])])) ''/clusters/'' \<and>
   \<not> strings_HasPrefix (RequestURI (bearerRequest ''/api/v1/pods'' ''Bearer header.bound.signature''
       [(''X-Kubernetes-Sharded-Request'', [''true''])])) ''/clusters/'' \<and>
   Header_Get (Header (bearerRequest ''/api/v1/pods'' ''Bearer header.bound.signature''
       [(''X-Kubernetes-Sharded-Request'', [''true''])])) ''Authorization''
     = ''Bearer header.bound.signature'' \<and>
   exampleParseSigned ''header.bound.signature'' = Some ''bound'' \<and>
   exampleClaims ''bound'' =
     Some [(''iss'', JString ''kubernetes/serviceaccount''),
           (''kubernetes.io'', JObject [(''clusterName'', JString ''root:org'')])] \<and>
   NestedString [(''iss'', JString ''kubernetes/serviceaccount''),
        (''kubernetes.io'', JObject [(''clusterName'', JString ''root:org'')])]
      [''kubernetes.io'', ''clusterName''] = Found ''root:org'' \<and>
   map_option URL_Path (next_Request
     (WithInClusterServiceAccountRequestRewrite exampleParseSigned exampleClaims
        (bearerRequest ''/api/v1/pods'' ''Bearer header.bound.signature''
           [(''X-Kubernetes-Sharded-Request'', [''true''])]))) = Some ''/api/v1/pods'' \<and>
   map_option RequestURI (next_Request
     (WithInClusterServiceAccountRequestRewrite exampleParseSigned exampleClaims
        (bearerRequest ''/api/v1/pods'' ''Bearer header.bound.signature''
           [(''X-Kubernetes-Sharded-Request'', [''true''])]))) = Some ''/api/v1/pods''"
  by (simp add: bearerRequest_def NewRequest_def Header_Get_def ClusterHeader_def
      strings_HasPrefix_def exampleParseSigned_def exampleClaims_def exampleClaims_bound
      WithInClusterServiceAccountRequestRewrite_def next_Request_def Let_def)

text \<open>
  \<open>path.Join\<close> cleans: the trailing slash of \<open>/api/v1/\<close> is lost, and the path \<open>/\<close>
  becomes \<open>/clusters/root:org\<close>.
\<close>

lemma WithInClusterServiceAccountRequestRewrite_cleans:
  "map_option URL_Path (next_Request
     (WithInClusterServiceAccountRequestRewrite exampleParseSigned exampleClaims
        (bearerRequest ''/api/v1/'' ''Bearer header.legacy.signature'' []))) =
     Some ''/clusters/root:org/api/v1'' \<and>
   map_option URL_Path (next_Request
     (WithInClusterServiceAccountRequestRewrite exampleParseSigned exampleClaims
        (bearerRequest ''/'' ''Bearer header.legacy.signature'' []))) =
     Some ''/clusters/root:org''"
  by (simp add: bearerRequest_def NewRequest_def Header_Get_def ClusterHeader_def
      strings_HasPrefix_def exampleParseSigned_def exampleClaims_def NestedString_def
      WithInClusterServiceAccountRequestRewrite_def rewriteToCluster_def next_Request_def Let_def
      path_Join_def path_Clean_def)

section \<open>Admission of \<open>ClusterWorkspace\<close>\<close>

lemma fixed_texts_no_transition:
  "\<not> strings_Contains (errorText TypeImmutable) ''cannot transition from''"
  "\<not> strings_Contains (errorText LocationUnset) ''cannot transition from''"
  "\<not> strings_Contains (errorText BaseURLUnset) ''cannot transition from''"
  "\<not> strings_Contains (errorText InitializersNotEmpty) ''cannot transition from''"
  "\<not> strings_Contains (errorText BaseURLNotSet) ''cannot transition from''"
  "\<not> strings_Contains (errorText LocationNotSet) ''cannot transition from''"
  by (simp_all add: strings_Contains_def strings_HasPrefix_def)

lemma validateReady_errors:
  "e \<in> set (validateReady cw) \<Longrightarrow> e \<in> {InitializersNotEmpty, BaseURLNotSet, LocationNotSet}"
  by (auto simp: validateReady_def split: if_splits)

lemma validateUpdate_errors:
  "e \<in> set (validateUpdate old cw) \<Longrightarrow>
     e \<in> {TypeImmutable, LocationUnset, BaseURLUnset} \<or>
     (\<exists>po pn. cw_Phase old = Some po \<and> cw_Phase cw = Some pn \<and>
        phaseOrdinal pn < phaseOrdinal po \<and> e = PhaseTransition po pn)"
  by (auto simp: validateUpdate_def split: if_splits option.splits)

text \<open>
  C3. An update of a \<open>clusterworkspaces\<close> object that moves \<open>status.phase\<close> back in
  the order \<open>Scheduling < Initializing < Ready\<close> is rejected, with an error whose text
  contains \<open>cannot transition from <old> to <new>\<close> (the two phases between double
  quotes, as the test expects them); an update that keeps the phase has no error with
  the text \<open>cannot transition from\<close>.
\<close>

theorem Validate_phase_transition:
  assumes "attr_Resource a = ''clusterworkspaces''"
    and "attr_Operation a = Update"
    and "attr_OldObject a = Some old"
    and "cw_Phase old = Some po"
    and "cw_Phase (attr_Object a) = Some pn"
  shows "(po = Initializing \<and> pn = Scheduling \<or> po = Ready \<and> pn = Scheduling \<or>
          po = Ready \<and> pn = Initializing \<longrightarrow>
            rejected a \<and>
            (\<exists>e \<in> set (Validate a). strings_Contains (errorText e)
               (''cannot transition from '' @ fmt_q (phaseName po) @ '' to ''
                  @ fmt_q (phaseName pn)))) \<and>
         (po = pn \<longrightarrow>
            (\<forall>e \<in> set (Validate a). \<not> strings_Contains (errorText e) ''cannot transition from''))"
proof (intro conjI impI)
  assume regress: "po = Initializing \<and> pn = Scheduling \<or> po = Ready \<and> pn = Scheduling \<or>
          po = Ready \<and> pn = Initializing"
  then have "phaseOrdinal pn < phaseOrdinal po" by auto
  then have "PhaseTransition po pn \<in> set (validateUpdate old (attr_Object a))"
    using assms by (simp add: validateUpdate_def)
  then have mem: "PhaseTransition po pn \<in> set (Validate a)"
    using assms by (simp add: Validate_def)
  then show "rejected a" by (auto simp: rejected_def)
  have "strings_Contains (errorText (PhaseTransition po pn))
      (''cannot transition from '' @ fmt_q (phaseName po) @ '' to '' @ fmt_q (phaseName pn))"
    using strings_Contains_suffix [of "[]"] by simp
  with mem show "\<exists>e \<in> set (Validate a). strings_Contains (errorText e)
      (''cannot transition from '' @ fmt_q (phaseName po) @ '' to '' @ fmt_q (phaseName pn))"
    by blast
next
  assume eq: "po = pn"
  show "\<forall>e \<in> set (Validate a). \<not> strings_Contains (errorText e) ''cannot transition from''"
  proof
    fix e assume "e \<in> set (Validate a)"
    then have "e \<in> set (validateUpdate old (attr_Object a)) \<or>
               e \<in> set (validateReady (attr_Object a))"
      using assms by (auto simp: Validate_def validateCreate_def)
    then have "e \<in> {TypeImmutable, LocationUnset, BaseURLUnset,
                     InitializersNotEmpty, BaseURLNotSet, LocationNotSet}"
      using validateUpdate_errors [of e old "attr_Object a"]
        validateReady_errors [of e "attr_Object a"] assms eq
      by auto
    then show "\<not> strings_Contains (errorText e) ''cannot transition from''"
      using fixed_texts_no_transition by auto
  qed
qed

text \<open>On create \<open>Admit\<close> changes the owner annotation and nothing else.\<close>

lemma Admit_create:
  assumes "attr_Operation a = Create"
  shows "attr_Operation (Admit a) = Create"
    and "attr_Resource (Admit a) = attr_Resource a"
    and "attr_UserInfo (Admit a) = attr_UserInfo a"
    and "cw_Annotations (attr_Object (Admit a)) ownerAnnotationKey =
           Some (ownerAnnotationValue (attr_UserInfo a))"
    and "cw_Phase (attr_Object (Admit a)) = cw_Phase (attr_Object a)"
    and "cw_Initializers (attr_Object (Admit a)) = cw_Initializers (attr_Object a)"
    and "cw_BaseURL (attr_Object (Admit a)) = cw_BaseURL (attr_Object a)"
    and "cw_LocationCurrent (attr_Object (Admit a)) = cw_LocationCurrent (attr_Object a)"
  using assms by (simp_all add: Admit_def)

lemma Validate_Ready_create:
  assumes "attr_Resource a = ''clusterworkspaces''"
    and "attr_Operation a = Create"
    and "cw_Phase (attr_Object a) = Some Ready"
    and "cw_Annotations (attr_Object a) ownerAnnotationKey =
           Some (ownerAnnotationValue (attr_UserInfo a))"
  shows "\<not> rejected a \<longleftrightarrow>
           cw_Initializers (attr_Object a) = [] \<and> cw_BaseURL (attr_Object a) \<noteq> [] \<and>
           cw_LocationCurrent (attr_Object a) \<noteq> []"
  using assms
  by (auto simp: rejected_def Validate_def validateReady_def validateCreate_def
      split: if_splits)

text \<open>
  C4. For a create or an update of a \<open>clusterworkspaces\<close> object whose new phase is
  \<open>Ready\<close>: validation accepts only if \<open>status.initializers\<close> is empty,
  \<open>status.baseURL\<close> is not empty and \<open>status.location.current\<close> is not empty. A create
  in phase \<open>Ready\<close> is admitted (\<open>Admit\<close>, then \<open>Validate\<close>) exactly when the three
  conditions hold; the same holds of \<open>Validate\<close> alone on a create that carries the
  stamped owner annotation, as the create of the test does.
\<close>

theorem Validate_Ready:
  assumes "attr_Resource a = ''clusterworkspaces''"
    and "attr_Operation a = Create \<or> attr_Operation a = Update"
    and "cw_Phase (attr_Object a) = Some Ready"
  shows "(\<not> rejected a \<longrightarrow>
            cw_Initializers (attr_Object a) = [] \<and> cw_BaseURL (attr_Object a) \<noteq> [] \<and>
            cw_LocationCurrent (attr_Object a) \<noteq> []) \<and>
         (attr_Operation a = Create \<longrightarrow>
            (\<not> rejected (Admit a) \<longleftrightarrow>
               cw_Initializers (attr_Object a) = [] \<and> cw_BaseURL (attr_Object a) \<noteq> [] \<and>
               cw_LocationCurrent (attr_Object a) \<noteq> [])) \<and>
         (attr_Operation a = Create \<and>
          cw_Annotations (attr_Object a) ownerAnnotationKey =
            Some (ownerAnnotationValue (attr_UserInfo a)) \<longrightarrow>
            (\<not> rejected a \<longleftrightarrow>
               cw_Initializers (attr_Object a) = [] \<and> cw_BaseURL (attr_Object a) \<noteq> [] \<and>
               cw_LocationCurrent (attr_Object a) \<noteq> []))"
proof -
  let ?three = "cw_Initializers (attr_Object a) = [] \<and> cw_BaseURL (attr_Object a) \<noteq> [] \<and>
            cw_LocationCurrent (attr_Object a) \<noteq> []"
  have only_if: "\<not> rejected a \<longrightarrow> ?three"
    using assms
    by (auto simp: rejected_def Validate_def validateReady_def split: if_splits)
  have admitted: "\<not> rejected (Admit a) \<longleftrightarrow> ?three" if c: "attr_Operation a = Create"
  proof -
    note ad = Admit_create [OF c]
    have "\<not> rejected (Admit a) \<longleftrightarrow>
        cw_Initializers (attr_Object (Admit a)) = [] \<and>
        cw_BaseURL (attr_Object (Admit a)) \<noteq> [] \<and>
        cw_LocationCurrent (attr_Object (Admit a)) \<noteq> []"
      by (rule Validate_Ready_create) (simp_all add: ad assms)
    then show ?thesis by (simp add: ad)
  qed
  have stamped: "\<not> rejected a \<longleftrightarrow> ?three"
    if "attr_Operation a = Create \<and>
        cw_Annotations (attr_Object a) ownerAnnotationKey =
          Some (ownerAnnotationValue (attr_UserInfo a))"
    using that Validate_Ready_create assms by blast
  from only_if admitted stamped show ?thesis by blast
qed

text \<open>The serialization of the two identities of the tests.\<close>

lemma ownerAnnotationValue_someone:
  \<open>ownerAnnotationValue someone =
     ''{"username":"someone","uid":"id","groups":["a","b"],"extra":{"one":["1","01"]}}''\<close>
  by (simp add: ownerAnnotationValue_def userInfoValue_def someone_def json_string_def
      json_escape_char_def)

lemma ownerAnnotationValue_DefaultInfo: "ownerAnnotationValue DefaultInfo = ''{}''"
  by (simp add: ownerAnnotationValue_def userInfoValue_def DefaultInfo_def)

text \<open>The case of \<open>TestAdmit\<close>, and the eleven cases of \<open>TestValidate\<close> in their order.\<close>

lemma TestAdmit:
  \<open>attr_Object (Admit (createAttrWithUser (testWorkspace [] ''foo'' None [] [] []) someone)) =
     (testWorkspace [] ''foo'' None [] [] [])\<lparr>cw_Annotations :=
        [''tenancy.kcp.dev/owner'' \<mapsto>
         ''{"username":"someone","uid":"id","groups":["a","b"],"extra":{"one":["1","01"]}}'']\<rparr>\<close>
  by (simp add: Admit_def createAttrWithUser_def testWorkspace_def ownerAnnotationKey_def
      ownerAnnotationValue_someone)

lemma TestValidate:
  "map errorText (Validate (updateAttr (testWorkspace ownerEmpty ''foo'' None [] [] [])
      (testWorkspace ownerEmpty ''universal'' None [] [] []))) = [''field is immutable'']"
  "map errorText (Validate (updateAttr (testWorkspace ownerEmpty ''foo'' None [] [] [])
      (testWorkspace ownerEmpty ''foo'' None [] ''cluster'' [])))
     = [''status.location.current cannot be unset'']"
  "map errorText (Validate (updateAttr (testWorkspace ownerEmpty ''foo'' None [] [] [])
      (testWorkspace ownerEmpty ''foo'' None [] [] ''https://cluster/clsuters/test'')))
     = [''status.baseURL cannot be unset'']"
  "map errorText (Validate (updateAttr
      (testWorkspace ownerEmpty ''foo'' (Some Ready) [''a''] ''somewhere'' bigcorp)
      (testWorkspace ownerEmpty ''foo'' (Some Initializing) [''a''] [] [])))
     = [''spec.initializers must be empty for phase Ready'']"
  "map errorText (Validate (updateAttr
      (testWorkspace ownerEmpty ''foo'' (Some Ready) [] ''somewhere'' bigcorp)
      (testWorkspace ownerEmpty ''foo'' (Some Initializing) [''a''] ''somewhere'' bigcorp))) = []"
  "map errorText (Validate (updateAttr
      (testWorkspace ownerEmpty ''foo'' (Some Ready) [] ''somewhere'' bigcorp)
      (testWorkspace ownerEmpty ''foo'' (Some Scheduling) [''a''] [] []))) = []"
  "map errorText (Validate (createAttr
      (testWorkspace ownerEmpty ''foo'' (Some Ready) [] ''somewhere'' bigcorp))) = []"
  "map errorText (Validate (updateAttr
      (testWorkspace ownerEmpty ''foo'' (Some Ready) [] ''somewhere'' [])
      (testWorkspace ownerEmpty ''foo'' (Some Scheduling) [''a''] [] [])))
     = [''status.baseURL must be set for phase Ready'']"
  "map errorText (Validate (updateAttr
      (testWorkspace ownerEmpty ''foo'' (Some Initializing) [] ''somewhere'' bigcorp)
      (testWorkspace ownerEmpty ''foo'' (Some Ready) [] ''somewhere'' bigcorp)))
     = [''cannot transition from '' @ fmt_q ''Ready'' @ '' to '' @ fmt_q ''Initializing'']"
  "map errorText (Validate ((createAttr (testWorkspace ownerEmpty [] None [] [] []))
      \<lparr>attr_Resource := ''clusterworkspaceshards''\<rparr>)) = []"
  "map errorText (Validate (createAttrWithUser (testWorkspace ownerEmpty ''foo'' None [] [] [])
      someone))
     = [''expected user annotation tenancy.kcp.dev/owner='' @ ownerAnnotationValue someone]"
  by (simp_all add: Validate_def validateCreate_def validateUpdate_def validateReady_def
      updateAttr_def createAttr_def createAttrWithUser_def testWorkspace_def ownerEmpty_def
      bigcorp_def ownerAnnotationKey_def ownerAnnotationValue_DefaultInfo
      ownerAnnotationValue_someone)

theorem Validate_phase_transition_witness:
  "attr_Resource (updateAttr
      (testWorkspace ownerEmpty ''foo'' (Some Initializing) [] ''somewhere'' bigcorp)
      (testWorkspace ownerEmpty ''foo'' (Some Ready) [] ''somewhere'' bigcorp))
     = ''clusterworkspaces'' \<and>
   attr_Operation (updateAttr
      (testWorkspace ownerEmpty ''foo'' (Some Initializing) [] ''somewhere'' bigcorp)
      (testWorkspace ownerEmpty ''foo'' (Some Ready) [] ''somewhere'' bigcorp)) = Update \<and>
   attr_OldObject (updateAttr
      (testWorkspace ownerEmpty ''foo'' (Some Initializing) [] ''somewhere'' bigcorp)
      (testWorkspace ownerEmpty ''foo'' (Some Ready) [] ''somewhere'' bigcorp))
     = Some (testWorkspace ownerEmpty ''foo'' (Some Ready) [] ''somewhere'' bigcorp) \<and>
   cw_Phase (testWorkspace ownerEmpty ''foo'' (Some Ready) [] ''somewhere'' bigcorp) = Some Ready \<and>
   cw_Phase (attr_Object (updateAttr
      (testWorkspace ownerEmpty ''foo'' (Some Initializing) [] ''somewhere'' bigcorp)
      (testWorkspace ownerEmpty ''foo'' (Some Ready) [] ''somewhere'' bigcorp)))
     = Some Initializing \<and>
   rejected (updateAttr
      (testWorkspace ownerEmpty ''foo'' (Some Initializing) [] ''somewhere'' bigcorp)
      (testWorkspace ownerEmpty ''foo'' (Some Ready) [] ''somewhere'' bigcorp)) \<and>
   (\<exists>e \<in> set (Validate (updateAttr
      (testWorkspace ownerEmpty ''foo'' (Some Initializing) [] ''somewhere'' bigcorp)
      (testWorkspace ownerEmpty ''foo'' (Some Ready) [] ''somewhere'' bigcorp))).
      strings_Contains (errorText e)
        (''cannot transition from '' @ fmt_q (phaseName Ready) @ '' to ''
           @ fmt_q (phaseName Initializing))) \<and>
   cw_Phase (attr_Object (updateAttr
      (testWorkspace ownerEmpty ''foo'' (Some Ready) [] ''somewhere'' bigcorp)
      (testWorkspace ownerEmpty ''foo'' (Some Ready) [] ''somewhere'' bigcorp))) = Some Ready \<and>
   list_all (\<lambda>e. \<not> strings_Contains (errorText e) ''cannot transition from'')
     (Validate (updateAttr
      (testWorkspace ownerEmpty ''foo'' (Some Ready) [] ''somewhere'' bigcorp)
      (testWorkspace ownerEmpty ''foo'' (Some Ready) [] ''somewhere'' bigcorp)))"
proof -
  let ?ready = "testWorkspace ownerEmpty ''foo'' (Some Ready) [] ''somewhere'' bigcorp"
  let ?init = "testWorkspace ownerEmpty ''foo'' (Some Initializing) [] ''somewhere'' bigcorp"
  have r: "attr_Resource (updateAttr ws old) = ''clusterworkspaces''"
    and u: "attr_Operation (updateAttr ws old) = Update"
    and ol: "attr_OldObject (updateAttr ws old) = Some old"
    and nw: "attr_Object (updateAttr ws old) = ws" for ws old
    by (simp_all add: updateAttr_def)
  have pr: "cw_Phase ?ready = Some Ready" and pi: "cw_Phase ?init = Some Initializing"
    by (simp_all add: testWorkspace_def)
  have pi': "cw_Phase (attr_Object (updateAttr ?init ?ready)) = Some Initializing"
    and pr': "cw_Phase (attr_Object (updateAttr ?ready ?ready)) = Some Ready"
    by (simp_all only: nw pr pi)
  from Validate_phase_transition [OF r u ol pr pi']
  have down: "rejected (updateAttr ?init ?ready)"
    "\<exists>e \<in> set (Validate (updateAttr ?init ?ready)).
        strings_Contains (errorText e)
          (''cannot transition from '' @ fmt_q (phaseName Ready) @ '' to ''
             @ fmt_q (phaseName Initializing))"
    by blast+
  from Validate_phase_transition [OF r u ol pr pr']
  have same: "list_all (\<lambda>e. \<not> strings_Contains (errorText e) ''cannot transition from'')
                (Validate (updateAttr ?ready ?ready))"
    unfolding list_all_iff by blast
  from r u ol pr pi' down pr' same show ?thesis by blast
qed

theorem Validate_Ready_witness:
  "attr_Resource (createAttr (testWorkspace ownerEmpty ''foo'' (Some Ready) [] ''somewhere'' bigcorp))
     = ''clusterworkspaces'' \<and>
   attr_Operation (createAttr
      (testWorkspace ownerEmpty ''foo'' (Some Ready) [] ''somewhere'' bigcorp)) = Create \<and>
   cw_Phase (attr_Object (createAttr
      (testWorkspace ownerEmpty ''foo'' (Some Ready) [] ''somewhere'' bigcorp))) = Some Ready \<and>
   cw_Annotations (attr_Object (createAttr
      (testWorkspace ownerEmpty ''foo'' (Some Ready) [] ''somewhere'' bigcorp))) ownerAnnotationKey
     = Some (ownerAnnotationValue (attr_UserInfo (createAttr
      (testWorkspace ownerEmpty ''foo'' (Some Ready) [] ''somewhere'' bigcorp)))) \<and>
   cw_Initializers (attr_Object (createAttr
      (testWorkspace ownerEmpty ''foo'' (Some Ready) [] ''somewhere'' bigcorp))) = [] \<and>
   cw_BaseURL (attr_Object (createAttr
      (testWorkspace ownerEmpty ''foo'' (Some Ready) [] ''somewhere'' bigcorp))) \<noteq> [] \<and>
   cw_LocationCurrent (attr_Object (createAttr
      (testWorkspace ownerEmpty ''foo'' (Some Ready) [] ''somewhere'' bigcorp))) \<noteq> [] \<and>
   \<not> rejected (createAttr
      (testWorkspace ownerEmpty ''foo'' (Some Ready) [] ''somewhere'' bigcorp)) \<and>
   \<not> rejected (Admit (createAttr
      (testWorkspace ownerEmpty ''foo'' (Some Ready) [] ''somewhere'' bigcorp))) \<and>
   cw_Phase (attr_Object (updateAttr
      (testWorkspace ownerEmpty ''foo'' (Some Ready) [''a''] ''somewhere'' bigcorp)
      (testWorkspace ownerEmpty ''foo'' (Some Initializing) [''a''] [] []))) = Some Ready \<and>
   cw_Initializers (attr_Object (updateAttr
      (testWorkspace ownerEmpty ''foo'' (Some Ready) [''a''] ''somewhere'' bigcorp)
      (testWorkspace ownerEmpty ''foo'' (Some Initializing) [''a''] [] []))) \<noteq> [] \<and>
   rejected (updateAttr
      (testWorkspace ownerEmpty ''foo'' (Some Ready) [''a''] ''somewhere'' bigcorp)
      (testWorkspace ownerEmpty ''foo'' (Some Initializing) [''a''] [] []))"
  using Validate_Ready
    [of "createAttr (testWorkspace ownerEmpty ''foo'' (Some Ready) [] ''somewhere'' bigcorp)"]
    Validate_Ready
    [of "updateAttr
      (testWorkspace ownerEmpty ''foo'' (Some Ready) [''a''] ''somewhere'' bigcorp)
      (testWorkspace ownerEmpty ''foo'' (Some Initializing) [''a''] [] [])"]
  by (simp add: createAttr_def createAttrWithUser_def updateAttr_def testWorkspace_def
      ownerEmpty_def bigcorp_def ownerAnnotationKey_def ownerAnnotationValue_DefaultInfo)

text \<open>
  Rule 1 at work: \<open>Validate\<close> alone rejects a create in phase \<open>Ready\<close> that meets the
  three conditions when its owner annotation is not the stamped value.
\<close>

lemma Validate_Ready_create_owner_mismatch:
  "attr_Resource (createAttrWithUser
      (testWorkspace ownerEmpty ''foo'' (Some Ready) [] ''somewhere'' bigcorp) someone)
     = ''clusterworkspaces'' \<and>
   attr_Operation (createAttrWithUser
      (testWorkspace ownerEmpty ''foo'' (Some Ready) [] ''somewhere'' bigcorp) someone) = Create \<and>
   cw_Phase (attr_Object (createAttrWithUser
      (testWorkspace ownerEmpty ''foo'' (Some Ready) [] ''somewhere'' bigcorp) someone))
     = Some Ready \<and>
   cw_Initializers (attr_Object (createAttrWithUser
      (testWorkspace ownerEmpty ''foo'' (Some Ready) [] ''somewhere'' bigcorp) someone)) = [] \<and>
   cw_BaseURL (attr_Object (createAttrWithUser
      (testWorkspace ownerEmpty ''foo'' (Some Ready) [] ''somewhere'' bigcorp) someone)) \<noteq> [] \<and>
   cw_LocationCurrent (attr_Object (createAttrWithUser
      (testWorkspace ownerEmpty ''foo'' (Some Ready) [] ''somewhere'' bigcorp) someone)) \<noteq> [] \<and>
   rejected (createAttrWithUser
      (testWorkspace ownerEmpty ''foo'' (Some Ready) [] ''somewhere'' bigcorp) someone)"
  by (simp add: rejected_def Validate_def validateCreate_def createAttrWithUser_def
      testWorkspace_def ownerEmpty_def bigcorp_def ownerAnnotationKey_def
      ownerAnnotationValue_someone)

section \<open>The owner annotation\<close>

text \<open>Decoding a rendered text gives the value back: strings first.\<close>

lemma unhex_hexdigit_upto: "list_all (\<lambda>n. unhex (hexdigit n) = Some n) [0..<16]"
  by code_simp

lemma unhex_hexdigit: "n < 16 \<Longrightarrow> unhex (hexdigit n) = Some n"
  using unhex_hexdigit_upto by (simp add: list_all_iff)

lemma unhex4_control:
  assumes "(of_char c :: nat) < 32"
  shows "unhex4 CHR ''0'' CHR ''0'' (hexdigit (of_char c div 16)) (hexdigit (of_char c mod 16))
           = Some (of_char c)"
proof -
  have z: "unhex CHR ''0'' = Some 0" by (simp add: unhex_def)
  have "(of_char c :: nat) div 16 < 16" using assms by simp
  then have h: "unhex (hexdigit (of_char c div 16)) = Some (of_char c div 16)"
    by (rule unhex_hexdigit)
  have l: "unhex (hexdigit (of_char c mod 16)) = Some (of_char c mod 16)"
    by (rule unhex_hexdigit) simp
  show ?thesis by (simp add: unhex4_def z h l)
qed

lemma parse_chars_escape_char:
  "parse_chars (json_escape_char c @ rest) =
     map_option (\<lambda>(s, r). (c # s, r)) (parse_chars rest)"
proof -
  consider "c = CHR 0x22" | "c = CHR 0x5C"
    | "c \<noteq> CHR 0x22" "c \<noteq> CHR 0x5C" "(of_char c :: nat) < 32"
    | "c \<noteq> CHR 0x22" "c \<noteq> CHR 0x5C" "\<not> (of_char c :: nat) < 32"
    by blast
  then show ?thesis
  proof cases
    case 1
    then show ?thesis by (simp add: json_escape_char_def)
  next
    case 2
    then show ?thesis by (simp add: json_escape_char_def)
  next
    case 3
    then show ?thesis
      by (simp add: json_escape_char_def unhex4_control)
  next
    case 4
    then show ?thesis by (simp add: json_escape_char_def)
  qed
qed

lemma parse_chars_escaped:
  "parse_chars (concat (map json_escape_char s) @ CHR 0x22 # rest) = Some (s, rest)"
  by (induction s) (simp_all add: parse_chars_escape_char)

lemma parse_json_string:
  "\<exists>body. json_string s @ rest = CHR 0x22 # body \<and> parse_chars body = Some (s, rest)"
  by (simp add: json_string_def parse_chars_escaped)

text \<open>
  Arrays and objects: a rendered value starts with a quote, a bracket or a brace, and
  the text's length bounds the calls the decoder needs.
\<close>

lemma render_first:
  "\<exists>c cs. render v = c # cs \<and> (c = CHR 0x22 \<or> c = CHR ''['' \<or> c = CHR ''{'')"
  by (cases v) (simp_all add: json_string_def)

lemma strings_Join_first:
  assumes "xs \<noteq> []" and "\<forall>x \<in> set xs. \<exists>c cs. x = c # cs \<and> P c"
  shows "\<exists>c cs. strings_Join xs sep @ rest = c # cs \<and> P c"
proof -
  from assms(1) obtain x ys where xs: "xs = x # ys" by (cases xs) auto
  with assms(2) obtain c cs where "x = c # cs" "P c" by auto
  then show ?thesis unfolding xs by (cases ys) auto
qed

lemma parse_elems_render:
  assumes "\<And>v n rest. v \<in> set vs \<Longrightarrow> length (render v) \<le> n \<Longrightarrow>
             parse_value n (render v @ rest) = Some (v, rest)"
    and "vs \<noteq> []"
    and "length (strings_Join (map render vs) '','') < n"
  shows "parse_elems n (strings_Join (map render vs) '','' @ CHR '']'' # rest) = Some (vs, rest)"
  using assms
proof (induction vs arbitrary: n)
  case Nil
  then show ?case by simp
next
  case (Cons v vs)
  from Cons.prems(3) obtain m where n: "n = Suc m" by (cases n) auto
  have pv: "length (render v) \<le> k \<Longrightarrow> parse_value k (render v @ r) = Some (v, r)" for k r
    using Cons.prems(1) by simp
  show ?case
  proof (cases "vs = []")
    case True
    with Cons.prems(3) n have "length (render v) \<le> m" by simp
    from pv [OF this, of "CHR '']'' # rest"] True show ?thesis
      by (simp add: n)
  next
    case False
    then have j: "strings_Join (render v # map render vs) '','' =
        render v @ '','' @ strings_Join (map render vs) '',''"
      by (simp add: strings_Join_Cons)
    with Cons.prems(3) n have m1: "length (render v) \<le> m"
      and m2: "length (strings_Join (map render vs) '','') < m"
      by simp_all
    have ih: "parse_elems m (strings_Join (map render vs) '','' @ CHR '']'' # rest)
        = Some (vs, rest)"
      using Cons.IH [OF _ False m2] Cons.prems(1) by simp
    from pv [OF m1, of "CHR '','' # strings_Join (map render vs) '','' @ CHR '']'' # rest"] ih
    show ?thesis
      by (simp add: n j)
  qed
qed

lemma parse_members_step:
  assumes "parse_value m (render v @ X) = Some (v, X)"
  shows "parse_members (Suc m) (json_string k @ '':'' @ render v @ X) =
     (case X of
        [] \<Rightarrow> None
      | d # ds \<Rightarrow>
          if d = CHR '','' then map_option (\<lambda>(fs, r). ((k, v) # fs, r)) (parse_members m ds)
          else if d = CHR ''}'' then Some ([(k, v)], ds)
          else None)"
proof -
  have key: "parse_chars (concat (map json_escape_char k) @ CHR 0x22 # CHR '':'' # render v @ X)
      = Some (k, CHR '':'' # render v @ X)"
    by (rule parse_chars_escaped)
  have "json_string k @ '':'' @ render v @ X =
      CHR 0x22 # concat (map json_escape_char k) @ CHR 0x22 # CHR '':'' # render v @ X"
    by (simp add: json_string_def)
  then show ?thesis
    using key assms by simp
qed

lemma parse_members_render:
  assumes "\<And>k v n rest. (k, v) \<in> set fs \<Longrightarrow> length (render v) \<le> n \<Longrightarrow>
             parse_value n (render v @ rest) = Some (v, rest)"
    and "fs \<noteq> []"
    and "length (strings_Join (map (\<lambda>(k, v). json_string k @ '':'' @ render v) fs) '','') < n"
  shows "parse_members n
           (strings_Join (map (\<lambda>(k, v). json_string k @ '':'' @ render v) fs) '',''
              @ CHR ''}'' # rest) = Some (fs, rest)"
  using assms
proof (induction fs arbitrary: n)
  case Nil
  then show ?case by simp
next
  case (Cons f fs)
  obtain k v where f: "f = (k, v)" by (cases f)
  let ?mem = "\<lambda>(k, v). json_string k @ '':'' @ render v"
  from Cons.prems(3) obtain m where n: "n = Suc m" by (cases n) auto
  have pv: "length (render v) \<le> j \<Longrightarrow> parse_value j (render v @ r) = Some (v, r)" for j r
    using Cons.prems(1) [of k v] f by simp
  show ?case
  proof (cases "fs = []")
    case True
    have shape: "strings_Join (map ?mem (f # fs)) '','' @ CHR ''}'' # rest =
        json_string k @ '':'' @ render v @ (CHR ''}'' # rest)"
      using True f by simp
    from Cons.prems(3) n f True have "length (render v) \<le> m" by simp
    from pv [OF this] have "parse_value m (render v @ CHR ''}'' # rest) = Some (v, CHR ''}'' # rest)" .
    from parse_members_step [OF this, where k = k]
    have step: "parse_members (Suc m) (json_string k @ '':'' @ render v @ CHR ''}'' # rest) =
        Some ([(k, v)], rest)"
      by simp
    show ?thesis unfolding n shape step using True f by simp
  next
    case False
    have shape: "strings_Join (map ?mem (f # fs)) '','' @ CHR ''}'' # rest =
        json_string k @ '':'' @ render v
          @ (CHR '','' # strings_Join (map ?mem fs) '','' @ CHR ''}'' # rest)"
      using False f by (simp add: strings_Join_Cons)
    have "strings_Join (map ?mem (f # fs)) '','' =
        json_string k @ '':'' @ render v @ '','' @ strings_Join (map ?mem fs) '',''"
      using False f by (simp add: strings_Join_Cons)
    with Cons.prems(3) n have m1: "length (render v) \<le> m"
      and m2: "length (strings_Join (map ?mem fs) '','') < m"
      by simp_all
    have sub: "parse_value j (render w @ r) = Some (w, r)"
      if "(k', w) \<in> set fs" "length (render w) \<le> j" for k' w j r
      using Cons.prems(1) [of k' w j r] that by simp
    have ih: "parse_members m (strings_Join (map ?mem fs) '','' @ CHR ''}'' # rest)
        = Some (fs, rest)"
      by (rule Cons.IH [OF sub False m2])
    let ?X = "CHR '','' # strings_Join (map ?mem fs) '','' @ CHR ''}'' # rest"
    from pv [OF m1] have "parse_value m (render v @ ?X) = Some (v, ?X)" .
    from parse_members_step [OF this, where k = k]
    have step: "parse_members (Suc m) (json_string k @ '':'' @ render v @ ?X) =
        Some ((k, v) # fs, rest)"
      using ih by simp
    show ?thesis unfolding n shape step using f by simp
  qed
qed

lemma parse_value_render:
  "length (render v) \<le> n \<Longrightarrow> parse_value n (render v @ rest) = Some (v, rest)"
proof (induction v arbitrary: n rest)
  case (JStr s)
  then obtain m where n: "n = Suc m" by (cases n) (auto simp: json_string_def)
  show ?case
    by (simp add: n json_string_def parse_chars_escaped)
next
  case (JArr vs)
  from JArr.prems obtain m where n: "n = Suc m" by (cases n) auto
  show ?case
  proof (cases "vs = []")
    case True
    then show ?thesis by (simp add: n)
  next
    case False
    let ?j = "strings_Join (map render vs) '',''"
    have "\<exists>c cs. ?j @ CHR '']'' # rest = c # cs \<and> c \<noteq> CHR '']''"
    proof (rule strings_Join_first)
      show "map render vs \<noteq> []" using False by simp
      show "\<forall>x \<in> set (map render vs). \<exists>c cs. x = c # cs \<and> c \<noteq> CHR '']''"
        using render_first by fastforce
    qed
    then obtain c cs where first: "?j @ CHR '']'' # rest = c # cs" "c \<noteq> CHR '']''"
      by blast
    have len: "length ?j < m" using JArr.prems n by simp
    have "parse_elems m (?j @ CHR '']'' # rest) = Some (vs, rest)"
      by (rule parse_elems_render [OF JArr.IH False len])
    then have "parse_value (Suc m) (CHR ''['' # ?j @ CHR '']'' # rest) = Some (JArr vs, rest)"
      using first by simp
    then show ?thesis by (simp add: n)
  qed
next
  case (JObj fs)
  from JObj.prems obtain m where n: "n = Suc m" by (cases n) auto
  let ?mem = "\<lambda>(k, v). json_string k @ '':'' @ render v"
  have ih: "(k, v) \<in> set fs \<Longrightarrow> length (render v) \<le> j \<Longrightarrow>
      parse_value j (render v @ r) = Some (v, r)" for k v j r
    using JObj.IH [of "(k, v)" v j r] by simp
  show ?case
  proof (cases "fs = []")
    case True
    then show ?thesis by (simp add: n)
  next
    case False
    let ?j = "strings_Join (map ?mem fs) '',''"
    have "\<exists>c cs. ?j @ CHR ''}'' # rest = c # cs \<and> c \<noteq> CHR ''}''"
    proof (rule strings_Join_first)
      show "map ?mem fs \<noteq> []" using False by simp
      show "\<forall>x \<in> set (map ?mem fs). \<exists>c cs. x = c # cs \<and> c \<noteq> CHR ''}''"
        by (auto simp: json_string_def)
    qed
    then obtain c cs where first: "?j @ CHR ''}'' # rest = c # cs" "c \<noteq> CHR ''}''"
      by blast
    have len: "length ?j < m" using JObj.prems n by simp
    have "parse_members m (?j @ CHR ''}'' # rest) = Some (fs, rest)"
      by (rule parse_members_render [OF ih False len])
    then have "parse_value (Suc m) (CHR ''{'' # ?j @ CHR ''}'' # rest) = Some (JObj fs, rest)"
      using first by simp
    then show ?thesis by (simp add: n)
  qed
qed

lemma decode_render: "decode (render v) = Some v"
  using parse_value_render [of v "length (render v)" "[]"] by (simp add: decode_def)

text \<open>The identity read from its own serialization.\<close>

lemma stringsOf_JStr: "stringsOf (map JStr ss) = Some ss"
  by (induction ss) simp_all

lemma extraOf_arrays:
  "extraOf (map (\<lambda>(k, vs). (k, JArr (map JStr vs))) xs) = Some xs"
  by (induction xs) (auto simp: stringsOf_JStr)

lemma userInfoOfValue_userInfoValue:
  "userInfoOfValue (userInfoValue u) =
     Some \<lparr>user_Name = user_Name u, user_UID = user_UID u, user_Groups = user_Groups u,
           user_Extra = rev (sort_key fst (user_Extra u))\<rparr>"
  by (simp add: userInfoOfValue_def userInfoValue_def stringField_def stringsField_def
      extraField_def stringsOf_JStr extraOf_arrays)

lemma decodeUserInfo_ownerAnnotationValue:
  "decodeUserInfo (ownerAnnotationValue u) =
     Some \<lparr>user_Name = user_Name u, user_UID = user_UID u, user_Groups = user_Groups u,
           user_Extra = rev (sort_key fst (user_Extra u))\<rparr>"
  by (simp add: decodeUserInfo_def ownerAnnotationValue_def decode_render
      userInfoOfValue_userInfoValue)

lemma distinct_keys_sort_key:
  "distinct (map fst (sort_key fst xs)) = distinct (map fst xs)"
proof -
  have "mset (map fst (sort_key fst xs)) = mset (map fst xs)" by simp
  then show ?thesis by (rule mset_eq_imp_distinct_iff)
qed

lemma map_of_rev_sort_key:
  assumes "distinct (map fst xs)"
  shows "map_of (rev (sort_key fst xs)) = map_of xs"
proof -
  have d: "distinct (map fst (rev (sort_key fst xs)))"
    using assms by (simp add: rev_map [symmetric] distinct_keys_sort_key)
  have "set (rev (sort_key fst xs)) = set xs" by simp
  with map_of_inject_set [OF d assms] show ?thesis by simp
qed

text \<open>The keys of the serialization, in their order, and the keys of \<open>extra\<close>, sorted.\<close>

lemma ownerAnnotationValue_keys:
  "\<exists>fs. ownerAnnotationValue u = render (JObj fs) \<and>
     map fst fs =
       (if user_Name u = [] then [] else [''username'']) @
       (if user_UID u = [] then [] else [''uid'']) @
       (if user_Groups u = [] then [] else [''groups'']) @
       (if user_Extra u = [] then [] else [''extra'']) \<and>
     (user_Extra u = [] \<or>
      (\<exists>es. map_of fs ''extra'' = Some (JObj es) \<and> sorted (map fst es) \<and>
         mset (map fst es) = mset (map fst (user_Extra u))))"
proof -
  let ?es = "map (\<lambda>(k, vs). (k, JArr (map JStr vs))) (sort_key fst (user_Extra u))"
  have f: "fst \<circ> (\<lambda>(k, vs). (k, JArr (map JStr vs))) = (fst :: string \<times> string list \<Rightarrow> string)"
    by (rule ext) (simp add: case_prod_unfold)
  have keys: "map fst ?es = map fst (sort_key fst (user_Extra u))"
    by (simp add: f)
  have "sorted (map fst ?es)"
    unfolding keys by (rule sorted_sort_key)
  moreover have "mset (map fst ?es) = mset (map fst (user_Extra u))"
    unfolding keys by simp
  ultimately have sm: "sorted (map fst ?es) \<and>
      mset (map fst ?es) = mset (map fst (user_Extra u))"
    by blast
  define fs where "fs =
     (if user_Name u = [] then [] else [(''username'', JStr (user_Name u))]) @
     (if user_UID u = [] then [] else [(''uid'', JStr (user_UID u))]) @
     (if user_Groups u = [] then [] else [(''groups'', JArr (map JStr (user_Groups u)))]) @
     (if user_Extra u = [] then [] else [(''extra'', JObj ?es)])"
  have r: "ownerAnnotationValue u = render (JObj fs)"
    unfolding ownerAnnotationValue_def userInfoValue_def fs_def by (rule refl)
  have k: "map fst fs =
       (if user_Name u = [] then [] else [''username'']) @
       (if user_UID u = [] then [] else [''uid'']) @
       (if user_Groups u = [] then [] else [''groups'']) @
       (if user_Extra u = [] then [] else [''extra''])"
    by (simp add: fs_def)
  have e: "user_Extra u = [] \<or>
      (\<exists>es. map_of fs ''extra'' = Some (JObj es) \<and> sorted (map fst es) \<and>
         mset (map fst es) = mset (map fst (user_Extra u)))"
  proof (cases "user_Extra u = []")
    case True
    then show ?thesis by simp
  next
    case False
    then have "map_of fs ''extra'' = Some (JObj ?es)" by (simp add: fs_def)
    with sm show ?thesis by blast
  qed
  from r k e show ?thesis by blast
qed

text \<open>
  C5. On create \<open>Admit\<close> sets the annotation \<open>tenancy.kcp.dev/owner\<close> to the JSON
  serialization of the caller: an object whose keys are those of \<open>username\<close>, \<open>uid\<close>,
  \<open>groups\<close>, \<open>extra\<close> that are not empty, in this order, the keys of \<open>extra\<close> sorted;
  decoding the annotation gives the identity of the caller back (name, UID and groups,
  and the map \<open>extra\<close>). On update \<open>Admit\<close> leaves the attributes, and with them the
  object, as they are. \<open>Extra\<close> is a Go map: its entries have distinct keys.
\<close>

theorem Admit_owner_annotation:
  assumes "distinct (map fst (user_Extra (attr_UserInfo a)))"
  shows "(attr_Operation a = Create \<longrightarrow>
            cw_Annotations (attr_Object (Admit a)) ownerAnnotationKey =
              Some (ownerAnnotationValue (attr_UserInfo a)) \<and>
            (\<exists>fs. ownerAnnotationValue (attr_UserInfo a) = render (JObj fs) \<and>
               map fst fs =
                 (if user_Name (attr_UserInfo a) = [] then [] else [''username'']) @
                 (if user_UID (attr_UserInfo a) = [] then [] else [''uid'']) @
                 (if user_Groups (attr_UserInfo a) = [] then [] else [''groups'']) @
                 (if user_Extra (attr_UserInfo a) = [] then [] else [''extra'']) \<and>
               (user_Extra (attr_UserInfo a) = [] \<or>
                (\<exists>es. map_of fs ''extra'' = Some (JObj es) \<and> sorted (map fst es) \<and>
                   mset (map fst es) = mset (map fst (user_Extra (attr_UserInfo a)))))) \<and>
            (\<exists>u'. decodeUserInfo (ownerAnnotationValue (attr_UserInfo a)) = Some u' \<and>
               sameIdentity (attr_UserInfo a) u')) \<and>
         (attr_Operation a = Update \<longrightarrow> Admit a = a)"
proof -
  let ?u = "attr_UserInfo a"
  let ?u' = "\<lparr>user_Name = user_Name ?u, user_UID = user_UID ?u, user_Groups = user_Groups ?u,
           user_Extra = rev (sort_key fst (user_Extra ?u))\<rparr>"
  have stamp: "cw_Annotations (attr_Object (Admit a)) ownerAnnotationKey =
      Some (ownerAnnotationValue ?u)" if "attr_Operation a = Create"
    using that by (simp add: Admit_def)
  have "sameIdentity ?u ?u'"
    using map_of_rev_sort_key [OF assms] by (simp add: sameIdentity_def)
  then have trip: "\<exists>u'. decodeUserInfo (ownerAnnotationValue ?u) = Some u' \<and> sameIdentity ?u u'"
    using decodeUserInfo_ownerAnnotationValue [of ?u] by blast
  have upd: "Admit a = a" if "attr_Operation a = Update"
    using that by (simp add: Admit_def)
  from stamp ownerAnnotationValue_keys [of ?u] trip upd show ?thesis by blast
qed

text \<open>The annotation of \<open>TestAdmit\<close>, decoded.\<close>

lemma decodeUserInfo_someone:
  \<open>decodeUserInfo
     ''{"username":"someone","uid":"id","groups":["a","b"],"extra":{"one":["1","01"]}}''
   = Some someone\<close>
  using decodeUserInfo_ownerAnnotationValue [of someone]
  unfolding ownerAnnotationValue_someone by (simp add: someone_def)

theorem Admit_owner_annotation_witness:
  \<open>distinct (map fst (user_Extra (attr_UserInfo
      (createAttrWithUser (testWorkspace [] ''foo'' None [] [] []) someone)))) \<and>
   attr_Operation (createAttrWithUser (testWorkspace [] ''foo'' None [] [] []) someone) = Create \<and>
   cw_Annotations (attr_Object (Admit
      (createAttrWithUser (testWorkspace [] ''foo'' None [] [] []) someone))) ownerAnnotationKey
     = Some ''{"username":"someone","uid":"id","groups":["a","b"],"extra":{"one":["1","01"]}}'' \<and>
   (\<exists>u'. decodeUserInfo
       ''{"username":"someone","uid":"id","groups":["a","b"],"extra":{"one":["1","01"]}}''
         = Some u' \<and> sameIdentity someone u') \<and>
   attr_Operation (updateAttr (testWorkspace ownerEmpty ''foo'' None [] [] [])
      (testWorkspace ownerEmpty ''foo'' None [] [] [])) = Update \<and>
   Admit (updateAttr (testWorkspace ownerEmpty ''foo'' None [] [] [])
      (testWorkspace ownerEmpty ''foo'' None [] [] []))
     = updateAttr (testWorkspace ownerEmpty ''foo'' None [] [] [])
      (testWorkspace ownerEmpty ''foo'' None [] [] [])\<close>
proof -
  let ?A = "createAttrWithUser (testWorkspace [] ''foo'' None [] [] []) someone"
  let ?U = "updateAttr (testWorkspace ownerEmpty ''foo'' None [] [] [])
      (testWorkspace ownerEmpty ''foo'' None [] [] [])"
  have ui: "attr_UserInfo ?A = someone" and c: "attr_Operation ?A = Create"
    by (simp_all add: createAttrWithUser_def)
  have d: "distinct (map fst (user_Extra (attr_UserInfo ?A)))"
    unfolding ui by (simp add: someone_def)
  have up: "attr_Operation ?U = Update"
    and d': "distinct (map fst (user_Extra (attr_UserInfo ?U)))"
    by (simp_all add: updateAttr_def DefaultInfo_def)
  from Admit_owner_annotation [OF d] c
  have "cw_Annotations (attr_Object (Admit ?A)) ownerAnnotationKey =
      Some (ownerAnnotationValue (attr_UserInfo ?A))"
    and "\<exists>u'. decodeUserInfo (ownerAnnotationValue (attr_UserInfo ?A)) = Some u' \<and>
      sameIdentity (attr_UserInfo ?A) u'"
    by blast+
  then have stamped: \<open>cw_Annotations (attr_Object (Admit ?A)) ownerAnnotationKey =
      Some ''{"username":"someone","uid":"id","groups":["a","b"],"extra":{"one":["1","01"]}}''\<close>
    and trip: \<open>\<exists>u'. decodeUserInfo
       ''{"username":"someone","uid":"id","groups":["a","b"],"extra":{"one":["1","01"]}}''
         = Some u' \<and> sameIdentity someone u'\<close>
    unfolding ui ownerAnnotationValue_someone by blast+
  from Admit_owner_annotation [OF d'] up have same: "Admit ?U = ?U" by blast
  from d c stamped trip up same show ?thesis by blast
qed

section \<open>The readiness loop of \<open>startFrontProxy\<close>\<close>

lemma waitForReadiness_append:
  "\<forall>p \<in> set pre. snd (pollOnce p) = None \<Longrightarrow>
     waitForReadiness (pre @ rest) =
       (concat (map (fst \<circ> pollOnce) pre) @ fst (waitForReadiness rest),
        snd (waitForReadiness rest))"
  by (induction pre) (auto split: prod.splits option.splits)










lemma pollOnce_probing:
  "snd (pollOnce (probing ProbeError)) = None"
  "snd (pollOnce (probing (ProbeStatus 503))) = None"
  by (simp_all add: pollOnce_def selectReturn_def probing_def)



text \<open>
  Two probes that fail and a third that answers 200: three rounds, three sleeps, and
  \<open>nil\<close>.
\<close>

lemma waitForReadiness_503_503_200:
  "waitForReadiness [probing ProbeError, probing ProbeError, probing (ProbeStatus 200)] =
     ([Sleep 1, LoadKubeconfig ''.kcp/admin.kubeconfig'' ''system:admin'', NewClient, Get ''/readyz'',
       Sleep 1, LoadKubeconfig ''.kcp/admin.kubeconfig'' ''system:admin'', NewClient, Get ''/readyz'',
       Sleep 1, LoadKubeconfig ''.kcp/admin.kubeconfig'' ''system:admin'', NewClient, Get ''/readyz''],
      Some ReturnNil)"
  by (simp add: probing_def pollOnce_def selectReturn_def)

text \<open>While no round returns, the loop goes on.\<close>

lemma waitForReadiness_never_ready:
  "\<forall>p \<in> set rs. snd (pollOnce p) = None \<Longrightarrow> snd (waitForReadiness rs) = None"
  using waitForReadiness_append [of rs "[]"] by simp

end
